theory Spec2Isabelle
  imports Complex_Main
begin

unbundle bit_operations_syntax

section \<open>The stencil slicer of app\_qt.py\<close>

text \<open>
  The program loads a triangle mesh, builds an orthographic projection and a model
  transform, and then, once per repaint, advances a height cursor by one layer, draws the
  cross-section on screen (\<open>draw\<close>) and renders it again into an offscreen framebuffer
  that is saved as a PNG (\<open>renderSlice\<close>).

  Python integers are \<open>int\<close>. A floating-point number is the real number it
  denotes, and every floating-point operation is the exact operation followed by IEEE
  rounding to the format of its result: binary64 for Python floats, binary32 for numpy's
  \<open>float32\<close> and for the entries of a \<open>QMatrix4x4\<close>. The module \<open>printer\<close> (build
  plate width and height in pixels, pixel pitch) is not part of the sources and enters as a
  parameter.
\<close>

subsection \<open>Floating-point rounding\<close>

text \<open>
  \<open>fl p emin\<close> rounds a real to the nearest number with \<open>p\<close> significant bits and
  least exponent \<open>emin\<close>, ties to the even significand; below \<open>2 powi emin\<close> the
  spacing stays that of the subnormal numbers. Results beyond the largest finite number,
  which IEEE arithmetic turns into infinities, are outside the model.
\<close>

fun bit_length :: "nat \<Rightarrow> nat" where
  "bit_length n = (if n = 0 then 0 else Suc (bit_length (n div 2)))"

declare bit_length.simps [simp del]

text \<open>For positive \<open>x\<close>, the exponent \<open>e\<close> with \<open>2 powi e \<le> x < 2 powi (e + 1)\<close>.\<close>

definition ilog2 :: "real \<Rightarrow> int" where
  "ilog2 x =
     (if 1 \<le> x then int (bit_length (nat \<lfloor>x\<rfloor>)) - 1
      else let k = int (bit_length (nat \<lfloor>1 / x\<rfloor>)) - 1
           in if x * 2 powi k = 1 then - k else - k - 1)"

definition round_even :: "real \<Rightarrow> int" where
  "round_even y =
     (let f = \<lfloor>y\<rfloor>
      in if y - of_int f < 1 / 2 then f
         else if 1 / 2 < y - of_int f then f + 1
         else if even f then f else f + 1)"

definition fl :: "int \<Rightarrow> int \<Rightarrow> real \<Rightarrow> real" where
  "fl p emin x =
     (if x = 0 then 0
      else let q = 2 powi (max (ilog2 \<bar>x\<bar>) emin - p + 1)
           in sgn x * (of_int (round_even (\<bar>x\<bar> / q)) * q))"

definition f64 :: "real \<Rightarrow> real" where
  "f64 x = fl 53 (- 1022) x"

definition f32 :: "real \<Rightarrow> real" where
  "f32 x = fl 24 (- 126) x"

subsection \<open>Constants and the printer module\<close>

text \<open>The literal \<open>0.00001\<close> denotes the double nearest to it.\<close>

definition EPSILON :: real where
  "EPSILON = f64 0.00001"

definition SCR_WIDTH :: int where
  "SCR_WIDTH = 640"

record printer =
  printer_width :: int
  printer_height :: int
  printer_pixel :: real

text \<open>\<open>int(x)\<close> on a Python float truncates toward zero.\<close>

definition py_int :: "real \<Rightarrow> int" where
  "py_int x = (if 0 \<le> x then \<lfloor>x\<rfloor> else \<lceil>x\<rceil>)"

subsection \<open>Exceptions\<close>

text \<open>
  \<open>SystemExit\<close> is what \<open>sys.exit()\<close> raises; \<open>ValueError\<close> is what numpy raises when
  a minimum or maximum is taken of an empty array; \<open>KeyError\<close> is a missing dict
  key and \<open>ZeroDivisionError\<close> a division by zero. The other three constructors are the
  error kinds the specification names; no path of the source raises them.
\<close>

datatype exn =
    SystemExit
  | ValueError
  | KeyError
  | ZeroDivisionError
  | InvalidMeshError
  | DegenerateVolumeError
  | ExportFailure

text \<open>
  The module-level \<open>SCR_HEIGHT = int(SCR_WIDTH * printer.height / printer.width)\<close>: the
  quotient of two integers is the double nearest to it.
\<close>

definition SCR_HEIGHT :: "printer \<Rightarrow> exn + int" where
  "SCR_HEIGHT pr =
     (if printer_width pr = 0 then Inl ZeroDivisionError
      else Inr (py_int (f64 (real_of_int (SCR_WIDTH * printer_height pr) / real_of_int (printer_width pr)))))"

subsection \<open>QMatrix4x4\<close>

text \<open>
  A matrix is four rows of four \<open>float\<close> entries. Every argument of \<open>translate\<close> and
  \<open>ortho\<close> is converted to \<open>float\<close>, and every product, sum and quotient inside them is
  rounded to \<open>float\<close>. \<open>translate\<close> adds to the last column the receiver's first three
  columns weighted by the arguments; \<open>ortho\<close> builds the projection matrix and multiplies
  the receiver by it from the right, and leaves the receiver unchanged when the volume it
  is given has no extent in some direction. Qt takes shortcuts for receivers it knows to
  be the identity or a translation; they give the entries computed here.
\<close>

datatype vec4 = Vec4 real real real real

datatype mat4 = Mat4 vec4 vec4 vec4 vec4

definition add32 :: "real \<Rightarrow> real \<Rightarrow> real" where
  "add32 a b = f32 (a + b)"

definition sub32 :: "real \<Rightarrow> real \<Rightarrow> real" where
  "sub32 a b = f32 (a - b)"

definition mul32 :: "real \<Rightarrow> real \<Rightarrow> real" where
  "mul32 a b = f32 (a * b)"

definition div32 :: "real \<Rightarrow> real \<Rightarrow> real" where
  "div32 a b = f32 (a / b)"

definition dot32 :: "vec4 \<Rightarrow> vec4 \<Rightarrow> real" where
  "dot32 u v = (case u of Vec4 a b c d \<Rightarrow> case v of Vec4 x y z w \<Rightarrow>
     add32 (add32 (add32 (mul32 a x) (mul32 b y)) (mul32 c z)) (mul32 d w))"

definition mat_col :: "mat4 \<Rightarrow> nat \<Rightarrow> vec4" where
  "mat_col m j =
     (case m of Mat4 (Vec4 a0 a1 a2 a3) (Vec4 b0 b1 b2 b3) (Vec4 c0 c1 c2 c3) (Vec4 d0 d1 d2 d3) \<Rightarrow>
        if j = 0 then Vec4 a0 b0 c0 d0
        else if j = 1 then Vec4 a1 b1 c1 d1
        else if j = 2 then Vec4 a2 b2 c2 d2
        else Vec4 a3 b3 c3 d3)"

definition row_mul :: "vec4 \<Rightarrow> mat4 \<Rightarrow> vec4" where
  "row_mul r m = Vec4 (dot32 r (mat_col m 0)) (dot32 r (mat_col m 1)) (dot32 r (mat_col m 2)) (dot32 r (mat_col m 3))"

definition mat_mul :: "mat4 \<Rightarrow> mat4 \<Rightarrow> mat4" where
  "mat_mul a b = (case a of Mat4 r0 r1 r2 r3 \<Rightarrow>
     Mat4 (row_mul r0 b) (row_mul r1 b) (row_mul r2 b) (row_mul r3 b))"

definition identity :: mat4 where
  "identity = Mat4 (Vec4 1 0 0 0) (Vec4 0 1 0 0) (Vec4 0 0 1 0) (Vec4 0 0 0 1)"

definition translate_row :: "vec4 \<Rightarrow> real \<Rightarrow> real \<Rightarrow> real \<Rightarrow> vec4" where
  "translate_row r x y z = (case r of Vec4 a0 a1 a2 a3 \<Rightarrow>
     Vec4 a0 a1 a2 (add32 a3 (add32 (add32 (mul32 a0 x) (mul32 a1 y)) (mul32 a2 z))))"

definition translate :: "mat4 \<Rightarrow> real \<Rightarrow> real \<Rightarrow> real \<Rightarrow> mat4" where
  "translate m x y z = (case m of Mat4 r0 r1 r2 r3 \<Rightarrow>
     Mat4 (translate_row r0 (f32 x) (f32 y) (f32 z))
          (translate_row r1 (f32 x) (f32 y) (f32 z))
          (translate_row r2 (f32 x) (f32 y) (f32 z))
          (translate_row r3 (f32 x) (f32 y) (f32 z)))"

definition ortho_matrix :: "real \<Rightarrow> real \<Rightarrow> real \<Rightarrow> real \<Rightarrow> real \<Rightarrow> real \<Rightarrow> mat4" where
  "ortho_matrix left right bottom topp nearPlane farPlane =
     (let width = sub32 right left;
          invheight = sub32 topp bottom;
          clip = sub32 farPlane nearPlane
      in Mat4 (Vec4 (div32 2 width) 0 0 (div32 (- (add32 left right)) width))
              (Vec4 0 (div32 2 invheight) 0 (div32 (- (add32 topp bottom)) invheight))
              (Vec4 0 0 (div32 (- 2) clip) (div32 (- (add32 nearPlane farPlane)) clip))
              (Vec4 0 0 0 1))"

definition ortho :: "mat4 \<Rightarrow> real \<Rightarrow> real \<Rightarrow> real \<Rightarrow> real \<Rightarrow> real \<Rightarrow> real \<Rightarrow> mat4" where
  "ortho m left right bottom topp nearPlane farPlane =
     (if f32 left = f32 right \<or> f32 bottom = f32 topp \<or> f32 nearPlane = f32 farPlane then m
      else mat_mul m
        (ortho_matrix (f32 left) (f32 right) (f32 bottom) (f32 topp) (f32 nearPlane) (f32 farPlane)))"

text \<open>
  What a matrix does to a point, in exact arithmetic: the map that the entries denote.
  \<open>translation\<close> is the matrix of a translation.
\<close>

definition dot :: "vec4 \<Rightarrow> vec4 \<Rightarrow> real" where
  "dot u v = (case u of Vec4 a b c d \<Rightarrow> case v of Vec4 x y z w \<Rightarrow> a * x + b * y + c * z + d * w)"

definition mat_apply :: "mat4 \<Rightarrow> vec4 \<Rightarrow> vec4" where
  "mat_apply m v = (case m of Mat4 r0 r1 r2 r3 \<Rightarrow> Vec4 (dot r0 v) (dot r1 v) (dot r2 v) (dot r3 v))"

definition translation :: "real \<Rightarrow> real \<Rightarrow> real \<Rightarrow> mat4" where
  "translation x y z = Mat4 (Vec4 1 0 0 x) (Vec4 0 1 0 y) (Vec4 0 0 1 z) (Vec4 0 0 0 1)"

text \<open>The canonical clip volume: every coordinate of the point within \<open>[-w, w]\<close>.\<close>

definition in_clip :: "vec4 \<Rightarrow> bool" where
  "in_clip v = (case v of Vec4 x y z w \<Rightarrow>
     - w \<le> x \<and> x \<le> w \<and> - w \<le> y \<and> y \<le> w \<and> - w \<le> z \<and> z \<le> w)"

subsection \<open>The mesh and its bounds\<close>

type_synonym vertex = "real \<times> real \<times> real"

type_synonym triangle = "vertex \<times> vertex \<times> vertex"

text \<open>
  \<open>ourMesh.vectors\<close> has shape \<open>(n, 3, 3)\<close>: a list of triangles, whose coordinates
  are \<open>float32\<close> numbers.
\<close>

type_synonym mesh = "triangle list"

definition vx :: "vertex \<Rightarrow> real" where "vx v = fst v"
definition vy :: "vertex \<Rightarrow> real" where "vy v = fst (snd v)"
definition vz :: "vertex \<Rightarrow> real" where "vz v = snd (snd v)"

text \<open>The vertices in buffer order, and \<open>vectors[:,:,k]\<close> flattened.\<close>

definition vertices :: "mesh \<Rightarrow> vertex list" where
  "vertices m = concat (map (\<lambda>(a, b, c). [a, b, c]) m)"

definition coords :: "(vertex \<Rightarrow> real) \<Rightarrow> mesh \<Rightarrow> real list" where
  "coords k m = map k (vertices m)"

fun np_min :: "real list \<Rightarrow> exn + real" where
  "np_min [] = Inl ValueError"
| "np_min (x # xs) = Inr (fold min xs x)"

fun np_max :: "real list \<Rightarrow> exn + real" where
  "np_max [] = Inl ValueError"
| "np_max (x # xs) = Inr (fold max xs x)"

text \<open>Reading a key of a Python dict raises \<open>KeyError\<close> when the key is absent.\<close>

definition dict_get :: "(string \<rightharpoonup> real) \<Rightarrow> string \<Rightarrow> exn + real" where
  "dict_get d k = (case d k of None \<Rightarrow> Inl KeyError | Some v \<Rightarrow> Inr v)"

definition bind_exn :: "exn + 'a \<Rightarrow> ('a \<Rightarrow> exn + 'b) \<Rightarrow> exn + 'b" where
  "bind_exn r f = (case r of Inl e \<Rightarrow> Inl e | Inr v \<Rightarrow> f v)"

subsection \<open>The OpenGL context\<close>

text \<open>
  The program drives OpenGL through a fixed vocabulary of calls. Each Python line that
  calls \<open>self.gl\<close>, a vertex array object, the shader program or the framebuffer object
  is one \<open>glcall\<close>; \<open>AllocateVBO\<close> stands for the create/bind/allocate/attribute block
  that fills the buffer of a vertex array object.
\<close>

datatype face = GL_FRONT | GL_BACK

datatype cap = GL_STENCIL_TEST | GL_CULL_FACE

datatype bufbit = GL_COLOR_BUFFER_BIT | GL_STENCIL_BUFFER_BIT

datatype sfunc = GL_ALWAYS | GL_NOTEQUAL

datatype sop = GL_KEEP | GL_INCR | GL_DECR

datatype prim = GL_TRIANGLES

datatype vao = VertVAO | MaskVAO

datatype framebuffer = DefaultFbo | SliceFbo

datatype glcall =
    BindFramebuffer framebuffer
  | glViewport int int int int
  | glEnable cap
  | glDisable cap
  | glClearColor real real real real
  | glClear "bufbit list"
  | AllocateVBO vao "vertex list"
  | BindVAO vao
  | BindProgram
  | ReleaseProgram
  | SetUniformValue string mat4
  | glCullFace face
  | glStencilFunc sfunc nat nat
  | glStencilOp sop sop sop
  | glDrawArrays prim int int

type_synonym rgba = "nat \<times> nat \<times> nat \<times> nat"

type_synonym pixel = "int \<times> int"

type_synonym rect = "int \<times> int \<times> int \<times> int"

text \<open>
  The part of the context state that the calls above read or write, with the colour and
  stencil buffers of the two framebuffers. \<open>stencil_ref\<close> and \<open>stencil_mask\<close> are the
  arguments of \<open>glStencilFunc\<close>. The stencil write mask, the colour mask, the scissor
  test and the depth test are never set by the program and keep their initial values,
  under which every clear and every write goes through. The face culled is always one
  of \<open>GL_FRONT\<close> and \<open>GL_BACK\<close>, and primitives are always triangles.
\<close>

record glstate =
  bound_fbo :: framebuffer
  viewport :: rect
  stencil_test :: bool
  cull_face :: bool
  cull_mode :: face
  clear_color :: "real \<times> real \<times> real \<times> real"
  stencil_func :: sfunc
  stencil_ref :: nat
  stencil_mask :: nat
  op_sfail :: sop
  op_zfail :: sop
  op_zpass :: sop
  bound_vao :: "vao option"
  program_bound :: bool
  uniforms :: "string \<Rightarrow> mat4"
  vbo :: "vao \<Rightarrow> vertex list"
  color_buf :: "framebuffer \<Rightarrow> pixel \<Rightarrow> rgba"
  stencil_buf :: "framebuffer \<Rightarrow> pixel \<Rightarrow> nat"

text \<open>
  What the program does not contain: the rasterizer and the two shaders
  (\<open>shaders/slice.vert\<close>, \<open>shaders/slice.frag\<close>). \<open>fragments\<close> gives, for a vertex
  list drawn as triangles under the two matrix uniforms and a viewport, the number of
  fragments that the triangles of one facing produce at a pixel; \<open>frag_color\<close> is the
  colour the fragment shader writes.
\<close>

record gpu =
  fragments :: "vertex list \<Rightarrow> mat4 \<Rightarrow> mat4 \<Rightarrow> rect \<Rightarrow> face \<Rightarrow> pixel \<Rightarrow> nat"
  frag_color :: rgba

definition zero_mat :: mat4 where
  "zero_mat = Mat4 (Vec4 0 0 0 0) (Vec4 0 0 0 0) (Vec4 0 0 0 0) (Vec4 0 0 0 0)"

text \<open>The state of a fresh context, as OpenGL specifies its initial values.\<close>

definition gl_init :: "rect \<Rightarrow> glstate" where
  "gl_init vp = \<lparr>bound_fbo = DefaultFbo, viewport = vp, stencil_test = False,
     cull_face = False, cull_mode = GL_BACK, clear_color = (0, 0, 0, 0),
     stencil_func = GL_ALWAYS, stencil_ref = 0, stencil_mask = 255,
     op_sfail = GL_KEEP, op_zfail = GL_KEEP, op_zpass = GL_KEEP,
     bound_vao = None, program_bound = False, uniforms = (\<lambda>_. zero_mat),
     vbo = (\<lambda>_. []), color_buf = (\<lambda>_ _. (0, 0, 0, 0)), stencil_buf = (\<lambda>_ _. 0)\<rparr>"

text \<open>
  The stencil buffer has eight bits (\<open>setStencilBufferSize(8)\<close>, and the combined
  depth-stencil attachment of the framebuffer object). \<open>GL_INCR\<close> and \<open>GL_DECR\<close> clamp
  at 255 and at 0.
\<close>

definition stencil_apply :: "sop \<Rightarrow> nat \<Rightarrow> nat" where
  "stencil_apply opr v =
     (case opr of
        GL_KEEP \<Rightarrow> v
      | GL_INCR \<Rightarrow> (if v < 255 then v + 1 else 255)
      | GL_DECR \<Rightarrow> (if 0 < v then v - 1 else 0))"

definition stencil_passes :: "sfunc \<Rightarrow> nat \<Rightarrow> nat \<Rightarrow> nat \<Rightarrow> bool" where
  "stencil_passes f r m v =
     (case f of GL_ALWAYS \<Rightarrow> True | GL_NOTEQUAL \<Rightarrow> (r AND m) \<noteq> (v AND m))"

text \<open>
  One fragment arriving at a pixel that holds stencil value \<open>v\<close> and colour \<open>c\<close>. The
  depth test is never enabled, so a fragment that passes the stencil test takes the
  third operation of \<open>glStencilOp\<close>.
\<close>

definition fragment_op :: "gpu \<Rightarrow> glstate \<Rightarrow> nat \<times> rgba \<Rightarrow> nat \<times> rgba" where
  "fragment_op gp g vc =
     (if \<not> stencil_test g then (fst vc, frag_color gp)
      else if stencil_passes (stencil_func g) (stencil_ref g) (stencil_mask g) (fst vc)
        then (stencil_apply (op_zpass g) (fst vc), frag_color gp)
        else (stencil_apply (op_sfail g) (fst vc), snd vc))"

text \<open>The fragments that survive face culling.\<close>

definition surviving :: "gpu \<Rightarrow> glstate \<Rightarrow> vertex list \<Rightarrow> pixel \<Rightarrow> nat" where
  "surviving gp g vs p =
     (let fr = fragments gp vs (uniforms g ''proj'') (uniforms g ''model'') (viewport g)
      in if cull_face g
         then (case cull_mode g of GL_FRONT \<Rightarrow> fr GL_BACK p | GL_BACK \<Rightarrow> fr GL_FRONT p)
         else fr GL_FRONT p + fr GL_BACK p)"

definition to8 :: "real \<Rightarrow> nat" where
  "to8 c = nat \<lfloor>(max 0 (min 1 c)) * 255 + 1 / 2\<rfloor>"

definition clear_rgba :: "glstate \<Rightarrow> rgba" where
  "clear_rgba g = (case clear_color g of (r, gr, b, a) \<Rightarrow> (to8 r, to8 gr, to8 b, to8 a))"

definition draw_arrays :: "gpu \<Rightarrow> int \<Rightarrow> int \<Rightarrow> glstate \<Rightarrow> glstate" where
  "draw_arrays gp first n g =
     (case bound_vao g of
        None \<Rightarrow> g
      | Some v \<Rightarrow>
          if \<not> program_bound g then g
          else
            let vs = take (nat n) (drop (nat first) (vbo g v));
                fb = bound_fbo g;
                res = (\<lambda>p. (fragment_op gp g ^^ surviving gp g vs p) (stencil_buf g fb p, color_buf g fb p))
            in g\<lparr>color_buf := (color_buf g)(fb := (\<lambda>p. snd (res p))),
                 stencil_buf := (stencil_buf g)(fb := (\<lambda>p. fst (res p)))\<rparr>)"

definition gl_exec :: "gpu \<Rightarrow> glcall \<Rightarrow> glstate \<Rightarrow> glstate" where
  "gl_exec gp c g =
     (case c of
        BindFramebuffer fb \<Rightarrow> g\<lparr>bound_fbo := fb\<rparr>
      | glViewport x y w h \<Rightarrow> g\<lparr>viewport := (x, y, w, h)\<rparr>
      | glEnable k \<Rightarrow> (case k of GL_STENCIL_TEST \<Rightarrow> g\<lparr>stencil_test := True\<rparr>
                                 | GL_CULL_FACE \<Rightarrow> g\<lparr>cull_face := True\<rparr>)
      | glDisable k \<Rightarrow> (case k of GL_STENCIL_TEST \<Rightarrow> g\<lparr>stencil_test := False\<rparr>
                                  | GL_CULL_FACE \<Rightarrow> g\<lparr>cull_face := False\<rparr>)
      | glClearColor r gr b a \<Rightarrow> g\<lparr>clear_color := (r, gr, b, a)\<rparr>
      | glClear bits \<Rightarrow>
          (let g1 = (if GL_COLOR_BUFFER_BIT \<in> set bits
                     then g\<lparr>color_buf := (color_buf g)(bound_fbo g := (\<lambda>_. clear_rgba g))\<rparr>
                     else g)
           in if GL_STENCIL_BUFFER_BIT \<in> set bits
              then g1\<lparr>stencil_buf := (stencil_buf g1)(bound_fbo g1 := (\<lambda>_. 0))\<rparr>
              else g1)
      | AllocateVBO v vs \<Rightarrow> g\<lparr>vbo := (vbo g)(v := vs)\<rparr>
      | BindVAO v \<Rightarrow> g\<lparr>bound_vao := Some v\<rparr>
      | BindProgram \<Rightarrow> g\<lparr>program_bound := True\<rparr>
      | ReleaseProgram \<Rightarrow> g\<lparr>program_bound := False\<rparr>
      | SetUniformValue name m \<Rightarrow>
          (if program_bound g then g\<lparr>uniforms := (uniforms g)(name := m)\<rparr> else g)
      | glCullFace f \<Rightarrow> g\<lparr>cull_mode := f\<rparr>
      | glStencilFunc f r m \<Rightarrow> g\<lparr>stencil_func := f, stencil_ref := r, stencil_mask := m\<rparr>
      | glStencilOp sf zf zp \<Rightarrow> g\<lparr>op_sfail := sf, op_zfail := zf, op_zpass := zp\<rparr>
      | glDrawArrays mode first n \<Rightarrow> draw_arrays gp first n g)"

text \<open>A sequence of calls, in order.\<close>

definition gl_run :: "gpu \<Rightarrow> glcall list \<Rightarrow> glstate \<Rightarrow> glstate" where
  "gl_run gp cs g = fold (gl_exec gp) cs g"

subsection \<open>The window object\<close>

text \<open>
  The fields of \<open>Window\<close> that the methods below read or write. \<open>winSize\<close> is what
  \<open>self.size()\<close> returns. \<open>proj\<close> and \<open>model\<close> come into being in
  \<open>initializeGL\<close>; until then the record holds the identity in their place.
\<close>

record window =
  numOfVerts :: int
  bounds :: "string \<rightharpoonup> real"
  totalThickness :: real
  currentLayer :: int
  height :: real
  sltFilename :: string
  layerThickness :: real
  sliceSavePath :: string
  proj :: mat4
  model :: mat4
  winSize :: "int \<times> int"

definition Window_init :: "string \<Rightarrow> real \<Rightarrow> string \<Rightarrow> int \<times> int \<Rightarrow> window" where
  "Window_init fname thickness savePath sz =
     \<lparr>numOfVerts = 0, bounds = Map.empty, totalThickness = 0, currentLayer = 0, height = 0,
      sltFilename = fname, layerThickness = thickness, sliceSavePath = savePath,
      proj = identity, model = identity, winSize = sz\<rparr>"

text \<open>
  The saved slices: a path holds a grayscale image (rows of bytes). \<open>writable\<close> says
  for each path whether writing it succeeds; \<open>QImage.save\<close> returns that as a bool.
\<close>

type_synonym image = "nat list list"

type_synonym disk = "string \<rightharpoonup> image"

record state =
  win :: window
  gl :: glstate
  files :: disk

subsection \<open>loadMesh and initializeGL\<close>

text \<open>
  \<open>printer.width*printer.pixel\<close> and \<open>printer.height*printer.pixel\<close>: the integer
  is converted to a double and the product is a double.
\<close>

definition plate_width :: "printer \<Rightarrow> real" where
  "plate_width pr = f64 (f64 (real_of_int (printer_width pr)) * printer_pixel pr)"

definition plate_height :: "printer \<Rightarrow> real" where
  "plate_height pr = f64 (f64 (real_of_int (printer_height pr)) * printer_pixel pr)"

text \<open>The mask array has \<open>dtype=GLfloat\<close>.\<close>

definition maskVert :: "printer \<Rightarrow> vertex list" where
  "maskVert pr =
     [(0, 0, 0),
      (f32 (plate_width pr), 0, 0),
      (f32 (plate_width pr), f32 (plate_height pr), 0),
      (0, 0, 0),
      (f32 (plate_width pr), f32 (plate_height pr), 0),
      (0, f32 (plate_height pr), 0)]"

text \<open>
  \<open>loadMesh\<close> on the mesh that \<open>Mesh.from_file\<close> returned: the updated window and the
  buffer uploads, or the exception of the first failing line. The bounds are \<open>float32\<close>
  numbers and so is their difference.
\<close>

definition loadMesh :: "printer \<Rightarrow> mesh \<Rightarrow> window \<Rightarrow> exn + window \<times> glcall list" where
  "loadMesh pr ourMesh w =
     (let w1 = w\<lparr>numOfVerts := int (length ourMesh) * 3\<rparr> in
      bind_exn (np_min (coords vx ourMesh)) (\<lambda>x0.
      bind_exn (np_max (coords vx ourMesh)) (\<lambda>x1.
      bind_exn (np_min (coords vy ourMesh)) (\<lambda>y0.
      bind_exn (np_max (coords vy ourMesh)) (\<lambda>y1.
      bind_exn (np_min (coords vz ourMesh)) (\<lambda>z0.
      bind_exn (np_max (coords vz ourMesh)) (\<lambda>z1.
        let w2 = w1\<lparr>bounds := [''xmin'' \<mapsto> x0, ''xmax'' \<mapsto> x1, ''ymin'' \<mapsto> y0,
                                ''ymax'' \<mapsto> y1, ''zmin'' \<mapsto> z0, ''zmax'' \<mapsto> z1]\<rparr> in
        bind_exn (dict_get (bounds w2) ''zmax'') (\<lambda>hi.
        bind_exn (dict_get (bounds w2) ''zmin'') (\<lambda>lo.
          Inr (w2\<lparr>totalThickness := f32 (hi - lo)\<rparr>,
               [AllocateVBO VertVAO (vertices ourMesh), AllocateVBO MaskVAO (maskVert pr)]))))))))))"

text \<open>
  In \<open>initializeGL\<close> the sum \<open>self.totalThickness+EPSILON\<close> of a \<open>float32\<close> scalar
  and a Python float is a double, as numpy's scalar arithmetic had it when the program
  was written; \<open>translate\<close> then converts it to \<open>float\<close>.
\<close>

definition initializeGL :: "gpu \<Rightarrow> printer \<Rightarrow> mesh \<Rightarrow> state \<Rightarrow> exn + state" where
  "initializeGL gp pr ourMesh s =
     bind_exn (loadMesh pr ourMesh (win s)) (\<lambda>(w1, cs).
       let w2 = w1\<lparr>proj := ortho identity 0 (plate_width pr) 0 (plate_height pr)
                                          (- totalThickness w1) (totalThickness w1)\<rparr>;
           w3 = w2\<lparr>model := translate identity 0 0 (f64 (totalThickness w2 + EPSILON))\<rparr>
       in Inr (s\<lparr>win := w3, gl := gl_run gp cs (gl s)\<rparr>))"

subsection \<open>draw and renderSlice\<close>

text \<open>
  \<open>draw\<close> as the Python method: the window it leaves behind (the model matrix
  translated) and the calls it issues, which carry the matrices as they are at the moment
  of the call.
\<close>

definition draw :: "window \<Rightarrow> window \<times> glcall list" where
  "draw w =
     (let cs1 = [glViewport 0 0 (fst (winSize w)) (snd (winSize w)),
                 glEnable GL_STENCIL_TEST,
                 glClearColor 0 0 0 1,
                 glClear [GL_COLOR_BUFFER_BIT, GL_STENCIL_BUFFER_BIT],
                 BindVAO VertVAO,
                 BindProgram];
          w' = w\<lparr>model := translate (model w) 0 0 (- layerThickness w)\<rparr>;
          cs2 = [SetUniformValue ''proj'' (proj w'),
                 SetUniformValue ''model'' (model w'),
                 glEnable GL_CULL_FACE,
                 glCullFace GL_FRONT,
                 glStencilFunc GL_ALWAYS 0 255,
                 glStencilOp GL_KEEP GL_KEEP GL_INCR,
                 glDrawArrays GL_TRIANGLES 0 (numOfVerts w'),
                 glCullFace GL_BACK,
                 glStencilOp GL_KEEP GL_KEEP GL_DECR,
                 glDrawArrays GL_TRIANGLES 0 (numOfVerts w'),
                 glDisable GL_CULL_FACE,
                 glClear [GL_COLOR_BUFFER_BIT],
                 BindVAO MaskVAO,
                 glStencilFunc GL_NOTEQUAL 0 255,
                 glStencilOp GL_KEEP GL_KEEP GL_KEEP,
                 glDrawArrays GL_TRIANGLES 0 6,
                 glDisable GL_STENCIL_TEST,
                 ReleaseProgram]
      in (w', cs1 @ cs2))"

text \<open>The calls of \<open>renderSlice\<close> up to the readback.\<close>

definition renderSlice_calls :: "printer \<Rightarrow> window \<Rightarrow> glcall list" where
  "renderSlice_calls pr w =
     [BindFramebuffer SliceFbo,
      glViewport 0 0 (printer_width pr) (printer_height pr),
      glEnable GL_STENCIL_TEST,
      glClearColor 0 0 0 1,
      glClear [GL_COLOR_BUFFER_BIT, GL_STENCIL_BUFFER_BIT],
      BindVAO VertVAO,
      BindProgram,
      SetUniformValue ''proj'' (proj w),
      SetUniformValue ''model'' (model w),
      glEnable GL_CULL_FACE,
      glCullFace GL_FRONT,
      glStencilFunc GL_ALWAYS 0 255,
      glStencilOp GL_KEEP GL_KEEP GL_INCR,
      glDrawArrays GL_TRIANGLES 0 (numOfVerts w),
      glCullFace GL_BACK,
      glStencilOp GL_KEEP GL_KEEP GL_DECR,
      glDrawArrays GL_TRIANGLES 0 (numOfVerts w),
      glDisable GL_CULL_FACE,
      glClear [GL_COLOR_BUFFER_BIT],
      BindVAO MaskVAO,
      glStencilFunc GL_NOTEQUAL 0 255,
      glStencilOp GL_KEEP GL_KEEP GL_KEEP,
      glDrawArrays GL_TRIANGLES 0 6,
      glDisable GL_STENCIL_TEST]"

text \<open>
  \<open>sliceFbo.toImage()\<close>: the colour buffer of the framebuffer object, which has the
  printer's size, top row first. \<open>convertToFormat(Format_Grayscale8)\<close> takes Qt's
  gray value of each pixel.
\<close>

definition toImage :: "printer \<Rightarrow> glstate \<Rightarrow> rgba list list" where
  "toImage pr g =
     map (\<lambda>y. map (\<lambda>x. color_buf g SliceFbo (int x, int y)) [0..<nat (printer_width pr)])
         (rev [0..<nat (printer_height pr)])"

definition qGray :: "rgba \<Rightarrow> nat" where
  "qGray c = (case c of (r, g, b, a) \<Rightarrow> (r * 11 + g * 16 + b * 5) div 32)"

definition convertToGrayscale8 :: "rgba list list \<Rightarrow> image" where
  "convertToGrayscale8 img = map (map qGray) img"

text \<open>\<open>'{:04d}'.format(n)\<close> and \<open>os.path.join\<close> with a relative second part.\<close>

fun digits :: "nat \<Rightarrow> string" where
  "digits n = (if n < 10 then [char_of (48 + n)] else digits (n div 10) @ [char_of (48 + n mod 10)])"

definition zfill :: "nat \<Rightarrow> string \<Rightarrow> string" where
  "zfill k xs = replicate (k - length xs) CHR ''0'' @ xs"

definition format_04d :: "int \<Rightarrow> string" where
  "format_04d n = (if n < 0 then CHR ''-'' # zfill 3 (digits (nat (- n))) else zfill 4 (digits (nat n)))"

definition path_join :: "string \<Rightarrow> string \<Rightarrow> string" where
  "path_join a b = (if a = [] then b else if last a = CHR ''/'' then a @ b else a @ ''/'' @ b)"

definition slicePath :: "window \<Rightarrow> string" where
  "slicePath w = path_join (sliceSavePath w) (''out'' @ format_04d (currentLayer w) @ ''.png'')"

definition QImage_save :: "(string \<Rightarrow> bool) \<Rightarrow> string \<Rightarrow> image \<Rightarrow> disk \<Rightarrow> bool \<times> disk" where
  "QImage_save writable path img d = (if writable path then (True, d(path \<mapsto> img)) else (False, d))"

text \<open>
  \<open>renderSlice\<close>: the calls, the readback, the save (whose result the method drops), and
  the release of the framebuffer object, which binds the default framebuffer again.
\<close>

definition renderSlice :: "gpu \<Rightarrow> printer \<Rightarrow> (string \<Rightarrow> bool) \<Rightarrow> state \<Rightarrow> state" where
  "renderSlice gp pr writable s =
     (let g1 = gl_run gp (renderSlice_calls pr (win s)) (gl s);
          img = convertToGrayscale8 (toImage pr g1);
          (ok, d) = QImage_save writable (slicePath (win s)) img (files s);
          g2 = gl_exec gp (BindFramebuffer DefaultFbo) g1
      in s\<lparr>gl := g2, files := d\<rparr>)"

subsection \<open>paintGL and the repaint loop\<close>

text \<open>
  \<open>paintGL\<close> either leaves through \<open>sys.exit()\<close> or produces one layer and asks for
  the next repaint (\<open>self.update()\<close>). The difference \<open>self.totalThickness-EPSILON\<close>
  of a \<open>float32\<close> scalar and a Python float is a double, and so is the sum
  \<open>self.height + self.layerThickness\<close> of two Python floats.
\<close>

definition paintGL :: "gpu \<Rightarrow> printer \<Rightarrow> (string \<Rightarrow> bool) \<Rightarrow> state \<Rightarrow> exn + state" where
  "paintGL gp pr writable s =
     (if height (win s) \<ge> f64 (totalThickness (win s) - EPSILON) then Inl SystemExit
      else
        let w1 = (win s)\<lparr>height := f64 (height (win s) + layerThickness (win s))\<rparr>;
            w2 = w1\<lparr>currentLayer := currentLayer w1 + 1\<rparr>;
            (w3, cs) = draw w2;
            s1 = s\<lparr>win := w3, gl := gl_run gp cs (gl s)\<rparr>;
            s2 = renderSlice gp pr writable s1
        in Inr s2)"

text \<open>\<open>n\<close> repaints in a row, stopping at the first exception.\<close>

fun repaint :: "gpu \<Rightarrow> printer \<Rightarrow> (string \<Rightarrow> bool) \<Rightarrow> nat \<Rightarrow> state \<Rightarrow> exn + state" where
  "repaint gp pr writable 0 s = Inr s"
| "repaint gp pr writable (Suc n) s =
     (case paintGL gp pr writable s of Inl e \<Rightarrow> Inl e | Inr s' \<Rightarrow> repaint gp pr writable n s')"

text \<open>
  The event loop repaints until \<open>paintGL\<close> raises; its value is the exception together
  with the state at that moment, and \<open>None\<close> when the loop never ends.
\<close>

partial_function (option) event_loop ::
  "gpu \<Rightarrow> printer \<Rightarrow> (string \<Rightarrow> bool) \<Rightarrow> state \<Rightarrow> (exn \<times> state) option" where
  "event_loop gp pr writable s =
     (case paintGL gp pr writable s of
        Inl e \<Rightarrow> Some (e, s)
      | Inr s' \<Rightarrow> event_loop gp pr writable s')"

text \<open>
  A session: \<open>main\<close> reads the layer thickness with \<open>float(sys.argv[2])\<close>, the double
  nearest to the number \<open>thickness\<close> written on the command line; the window is
  constructed and shown at a size \<open>sz\<close> (\<open>main\<close> asks for \<open>SCR_WIDTH\<close> by
  \<open>SCR_HEIGHT\<close>), the context starts in its initial state, \<open>initializeGL\<close> runs once,
  and the event loop takes over.
\<close>

definition start :: "int \<times> int \<Rightarrow> string \<Rightarrow> real \<Rightarrow> string \<Rightarrow> disk \<Rightarrow> state" where
  "start sz fname thickness savePath d =
     \<lparr>win = Window_init fname (f64 thickness) savePath sz,
      gl = gl_init (0, 0, fst sz, snd sz),
      files = d\<rparr>"

definition session :: "gpu \<Rightarrow> printer \<Rightarrow> (string \<Rightarrow> bool) \<Rightarrow> mesh \<Rightarrow> state \<Rightarrow> (exn \<times> state) option" where
  "session gp pr writable ourMesh s =
     (case initializeGL gp pr ourMesh s of
        Inl e \<Rightarrow> Some (e, s)
      | Inr s1 \<Rightarrow> event_loop gp pr writable s1)"

subsection \<open>Notions used to state the properties\<close>

text \<open>
  The calls from enabling to disabling the stencil test, as both \<open>draw\<close> and
  \<open>renderSlice\<close> are claimed to issue them for a window \<open>w\<close>: clear, the pass that
  culls front faces and increments, the pass that culls back faces and decrements, the
  colour-only clear, and the mask quad drawn where the stencil value differs from 0.
\<close>

definition stencil_sequence :: "window \<Rightarrow> glcall list" where
  "stencil_sequence w =
     [glEnable GL_STENCIL_TEST,
      glClearColor 0 0 0 1,
      glClear [GL_COLOR_BUFFER_BIT, GL_STENCIL_BUFFER_BIT],
      BindVAO VertVAO,
      BindProgram,
      SetUniformValue ''proj'' (proj w),
      SetUniformValue ''model'' (model w),
      glEnable GL_CULL_FACE,
      glCullFace GL_FRONT,
      glStencilFunc GL_ALWAYS 0 255,
      glStencilOp GL_KEEP GL_KEEP GL_INCR,
      glDrawArrays GL_TRIANGLES 0 (numOfVerts w),
      glCullFace GL_BACK,
      glStencilOp GL_KEEP GL_KEEP GL_DECR,
      glDrawArrays GL_TRIANGLES 0 (numOfVerts w),
      glDisable GL_CULL_FACE,
      glClear [GL_COLOR_BUFFER_BIT],
      BindVAO MaskVAO,
      glStencilFunc GL_NOTEQUAL 0 255,
      glStencilOp GL_KEEP GL_KEEP GL_KEEP,
      glDrawArrays GL_TRIANGLES 0 6,
      glDisable GL_STENCIL_TEST]"

text \<open>
  The stencil value a pixel holds after the two passes over the solid: one clamped
  increment per back-facing fragment, then one clamped decrement per front-facing one.
\<close>

definition winding :: "gpu \<Rightarrow> vertex list \<Rightarrow> mat4 \<Rightarrow> mat4 \<Rightarrow> rect \<Rightarrow> pixel \<Rightarrow> nat" where
  "winding gp vs pj md vp p =
     (stencil_apply GL_DECR ^^ fragments gp vs pj md vp GL_FRONT p)
       ((stencil_apply GL_INCR ^^ fragments gp vs pj md vp GL_BACK p) 0)"

text \<open>
  The colour of a pixel after the mask pass, given the stencil value \<open>v\<close> it holds: the
  shader's colour where the quad covers the pixel and \<open>v\<close> is not 0, opaque black
  elsewhere.
\<close>

definition masked :: "gpu \<Rightarrow> vertex list \<Rightarrow> mat4 \<Rightarrow> mat4 \<Rightarrow> rect \<Rightarrow> nat \<Rightarrow> pixel \<Rightarrow> rgba" where
  "masked gp quad pj md vp v p =
     (if 0 < fragments gp quad pj md vp GL_FRONT p + fragments gp quad pj md vp GL_BACK p
         \<and> 0 < v AND 255
      then frag_color gp else (0, 0, 0, 255))"

text \<open>
  The culling switch, the culled face, the stencil operation and the vertex count in
  force at each \<open>glDrawArrays\<close> of a call sequence run from state \<open>g\<close>.
\<close>

fun draw_passes :: "gpu \<Rightarrow> glstate \<Rightarrow> glcall list \<Rightarrow> (bool \<times> face \<times> sop \<times> int) list" where
  "draw_passes gp g [] = []"
| "draw_passes gp g (c # cs) =
     (case c of
        glDrawArrays mode first n \<Rightarrow> [(cull_face g, cull_mode g, op_zpass g, n)]
      | _ \<Rightarrow> []) @ draw_passes gp (gl_exec gp c g) cs"

text \<open>The raster that \<open>renderSlice\<close> hands to \<open>QImage.save\<close> when run in state \<open>s\<close>.\<close>

definition sliceRaster :: "gpu \<Rightarrow> printer \<Rightarrow> state \<Rightarrow> image" where
  "sliceRaster gp pr s = convertToGrayscale8 (toImage pr (gl_run gp (renderSlice_calls pr (win s)) (gl s)))"

subsection \<open>Concrete inputs\<close>

text \<open>
  A tetrahedron of height 1, the same solid squeezed to height 0.00002, and a single
  flat triangle; a small build plate; a rasterizer that reports one back-facing fragment
  at every pixel whenever it is given vertices.
\<close>

definition tetra :: "real \<Rightarrow> mesh" where
  "tetra h =
     [((0, 0, 0), (0, 1, 0), (1, 0, 0)),
      ((0, 0, 0), (1, 0, 0), (0, 0, h)),
      ((0, 0, 0), (0, 0, h), (0, 1, 0)),
      ((1, 0, 0), (0, 1, 0), (0, 0, h))]"

definition flat_mesh :: mesh where
  "flat_mesh = [((0, 0, 0), (1, 0, 0), (0, 1, 0))]"

definition demo_printer :: printer where
  "demo_printer = \<lparr>printer_width = 4, printer_height = 3, printer_pixel = 1 / 2\<rparr>"

definition demo_gpu :: gpu where
  "demo_gpu = \<lparr>fragments = (\<lambda>vs pj md vp f p. case f of GL_FRONT \<Rightarrow> 0 | GL_BACK \<Rightarrow> (if vs = [] then 0 else 1)),
                frag_color = (255, 255, 255, 255)\<rparr>"

definition demo_start :: "real \<Rightarrow> state" where
  "demo_start thickness = start (640, 480) ''part.stl'' thickness ''slices'' Map.empty"

text \<open>The state in which the first repaint finds the session of a mesh.\<close>

definition loaded :: "mesh \<Rightarrow> real \<Rightarrow> state" where
  "loaded ourMesh thickness =
     (case initializeGL demo_gpu demo_printer ourMesh (demo_start thickness) of
        Inl e \<Rightarrow> demo_start thickness
      | Inr s \<Rightarrow> s)"

text \<open>The state after \<open>n\<close> layers, with every export succeeding.\<close>

definition layers :: "nat \<Rightarrow> state \<Rightarrow> state" where
  "layers n s = (case repaint demo_gpu demo_printer (\<lambda>_. True) n s of Inl e \<Rightarrow> s | Inr s' \<Rightarrow> s')"


text \<open>A rasterizer that reports one front-facing fragment at every pixel and no other.\<close>

definition front_gpu :: gpu where
  "front_gpu = \<lparr>fragments = (\<lambda>vs pj md vp f p. case f of GL_FRONT \<Rightarrow> 1 | GL_BACK \<Rightarrow> 0),
                 frag_color = (255, 255, 255, 255)\<rparr>"

section \<open>Basic facts\<close>

subsection \<open>Rounding\<close>

lemma bit_length_bounds:
  "0 < n \<Longrightarrow> 2 ^ (bit_length n - 1) \<le> n \<and> n < 2 ^ bit_length n"
proof (induction n rule: bit_length.induct)
  case (1 n)
  show ?case
  proof (cases "n div 2 = 0")
    case True
    with "1.prems" have "n = 1" by (simp add: div_eq_0_iff) 
    then show ?thesis by (simp add: bit_length.simps)
  next
    case False
    then have pos: "0 < n div 2" by simp
    from "1.IH"[OF _ pos] "1.prems"
    have ih: "2 ^ (bit_length (n div 2) - 1) \<le> n div 2" "n div 2 < 2 ^ bit_length (n div 2)"
      by simp_all
    have bl: "bit_length n = Suc (bit_length (n div 2))"
      using "1.prems" by (subst bit_length.simps) simp
    have "0 < bit_length (n div 2)"
      using pos by (subst bit_length.simps) simp
    then have e: "2 ^ (bit_length n - 1) = 2 * 2 ^ (bit_length (n div 2) - 1)"
      by (cases "bit_length (n div 2)") (simp_all add: bl)
    from ih(1) have "2 * 2 ^ (bit_length (n div 2) - 1) \<le> 2 * (n div 2)" by simp
    also have "\<dots> \<le> n" by simp
    finally have a: "2 ^ (bit_length n - 1) \<le> n" by (simp only: e)
    from ih(2) have "n div 2 + 1 \<le> 2 ^ bit_length (n div 2)" by simp
    then have "2 * (n div 2) + 2 \<le> 2 * 2 ^ bit_length (n div 2)" by simp
    moreover have "n < 2 * (n div 2) + 2" by presburger
    ultimately have "n < 2 ^ bit_length n" by (simp add: bl)
    with a show ?thesis by simp
  qed
qed

lemma bit_length_pos: "0 < n \<Longrightarrow> 0 < bit_length n"
  by (subst bit_length.simps) simp


lemma real_nat_floor:
  assumes "0 \<le> y"
  shows "real (nat \<lfloor>y\<rfloor>) \<le> y" and "y < real (nat \<lfloor>y\<rfloor>) + 1"
proof -
  have "real (nat \<lfloor>y\<rfloor>) = of_int \<lfloor>y\<rfloor>" using assms by simp
  then show "real (nat \<lfloor>y\<rfloor>) \<le> y" and "y < real (nat \<lfloor>y\<rfloor>) + 1"
    by linarith+
qed

lemma ilog2_bounds:
  assumes "0 < x"
  shows "2 powi (ilog2 x) \<le> x \<and> x < 2 powi (ilog2 x + 1)"
proof (cases "1 \<le> x")
  case True
  let ?n = "nat \<lfloor>x\<rfloor>"
  from True have n: "0 < ?n" by simp
  from bit_length_bounds[OF n] have b: "2 ^ (bit_length ?n - 1) \<le> ?n" "?n < 2 ^ bit_length ?n"
    by simp_all
  from bit_length_pos[OF n] have bp: "0 < bit_length ?n" .
  have i: "ilog2 x = int (bit_length ?n) - 1" using True by (simp add: ilog2_def)
  have e1: "int (bit_length ?n) - 1 = int (bit_length ?n - 1)" using bp by simp
  have "real ?n \<le> x" using True by (intro real_nat_floor) simp
  moreover from b(1) have "(2::real) ^ (bit_length ?n - 1) \<le> real ?n"
    by (metis of_nat_le_iff of_nat_numeral of_nat_power)
  ultimately have lo: "2 powi (ilog2 x) \<le> x"
    by (simp only: i e1 power_int_of_nat)
  have "x < real ?n + 1" using True by (intro real_nat_floor) simp
  moreover from b(2) have "real ?n + 1 \<le> 2 ^ bit_length ?n"
    by (metis Suc_leI of_nat_Suc of_nat_le_iff of_nat_numeral of_nat_power add.commute)
  ultimately have "x < 2 ^ bit_length ?n" by linarith
  then have hi: "x < 2 powi (ilog2 x + 1)"
    by (simp add: i)
  from lo hi show ?thesis by simp
next
  case False
  let ?n = "nat \<lfloor>1 / x\<rfloor>"
  let ?k = "int (bit_length ?n) - 1"
  from False assms have x1: "x < 1" "1 < 1 / x" by simp_all
  then have n: "0 < ?n" by simp
  from bit_length_bounds[OF n] have b: "2 ^ (bit_length ?n - 1) \<le> ?n" "?n < 2 ^ bit_length ?n"
    by simp_all
  from bit_length_pos[OF n] have bp: "0 < bit_length ?n" .
  have e1: "?k = int (bit_length ?n - 1)" using bp by simp
  have "real ?n \<le> 1 / x" using assms by (intro real_nat_floor) simp
  moreover from b(1) have "(2::real) ^ (bit_length ?n - 1) \<le> real ?n"
    by (metis of_nat_le_iff of_nat_numeral of_nat_power)
  ultimately have "(2::real) ^ (bit_length ?n - 1) \<le> 1 / x" by linarith
  then have kx: "2 powi ?k \<le> 1 / x" by (simp only: e1 power_int_of_nat)
  have "1 / x < real ?n + 1" using assms by (intro real_nat_floor) simp
  moreover from b(2) have "real ?n + 1 \<le> 2 ^ bit_length ?n"
    by (metis Suc_leI of_nat_Suc of_nat_le_iff of_nat_numeral of_nat_power add.commute)
  ultimately have x2: "1 / x < 2 ^ bit_length ?n" by linarith
  have "(2::real) ^ bit_length ?n = 2 ^ Suc (bit_length ?n - 1)" using bp by simp
  also have "\<dots> = 2 * 2 ^ (bit_length ?n - 1)" by simp
  also have "\<dots> = 2 * 2 powi ?k" by (simp only: e1 power_int_of_nat)
  finally have k2: "1 / x < 2 * 2 powi ?k" using x2 by simp
  define k where "k = ?k"
  define P where "P = (2::real) powi k"
  have P: "0 < P" by (simp add: P_def)
  from kx k2 have px: "P \<le> 1 / x" "1 / x < 2 * P" by (simp_all only: P_def k_def)
  from px(1) assms have up: "x * P \<le> 1" by (simp add: field_simps)
  from px(2) assms P have lo: "1 / (2 * P) < x" by (simp add: field_simps)
  have m0: "(2::real) powi (- k) = 1 / P"
    unfolding P_def by (rule power_int_minus_divide)
  have "(2::real) powi (- k - 1 + 1) = 2 powi (- k - 1) * 2 powi 1"
    by (rule power_int_add) simp
  moreover have "- k - 1 + 1 = - k" by simp
  ultimately have "1 / P = 2 powi (- k - 1) * 2" by (simp only: m0 power_int_1_right)
  then have m1: "(2::real) powi (- k - 1) = 1 / (2 * P)" using P by (simp add: field_simps)
  have "(2::real) powi (- k + 1) = 2 powi (- k) * 2 powi 1"
    by (rule power_int_add) simp
  then have m2: "(2::real) powi (- k + 1) = 2 / P" by (simp add: m0)
  have il: "ilog2 x = (if x * P = 1 then - k else - k - 1)"
    using False by (simp add: ilog2_def Let_def P_def k_def)
  show ?thesis
  proof (cases "x * P = 1")
    case True
    then have i: "ilog2 x = - k" by (simp add: il)
    from True have x: "x = 1 / P" using P by (simp add: field_simps)
    have "1 / P < 2 / P" using P by (simp add: field_simps)
    then show ?thesis unfolding i by (simp only: m0 m2 x) simp
  next
    case ne: False
    then have i: "ilog2 x = - k - 1" by (simp add: il)
    from ne up have "x * P < 1" by simp
    then have hi: "x < 1 / P" using P by (simp add: field_simps)
    have "- k - 1 + 1 = - k" by simp
    with hi lo show ?thesis unfolding i by (simp only: m0 m1) simp
  qed
qed

lemma ilog2_unique:
  assumes "2 powi e \<le> x" and "x < 2 powi (e + 1)"
  shows "ilog2 x = e"
proof -
  have pos: "0 < x" using assms(1) by (smt (verit) zero_less_power_int)
  from ilog2_bounds[OF pos] have b: "2 powi (ilog2 x) \<le> x" "x < 2 powi (ilog2 x + 1)"
    by simp_all
  have "\<not> ilog2 x < e"
  proof
    assume "ilog2 x < e"
    then have "ilog2 x + 1 \<le> e" by simp
    then have "(2::real) powi (ilog2 x + 1) \<le> 2 powi e"
      by (intro power_int_increasing) simp_all
    with b(2) assms(1) show False by simp
  qed
  moreover have "\<not> e < ilog2 x"
  proof
    assume "e < ilog2 x"
    then have "e + 1 \<le> ilog2 x" by simp
    then have "(2::real) powi (e + 1) \<le> 2 powi (ilog2 x)"
      by (intro power_int_increasing) simp_all
    with b(1) assms(2) show False by simp
  qed
  ultimately show ?thesis by simp
qed


lemma round_even_error: "\<bar>of_int (round_even y) - y\<bar> \<le> 1 / 2"
  unfolding round_even_def Let_def by (auto simp add: abs_le_iff)

lemma round_even_of_int: "round_even (of_int m) = m"
  by (simp add: round_even_def)

lemma round_even_ge: "of_int m \<le> y \<Longrightarrow> m \<le> round_even y"
proof -
  assume "of_int m \<le> y"
  then have "m \<le> \<lfloor>y\<rfloor>" by (simp add: le_floor_iff)
  then show ?thesis unfolding round_even_def Let_def by auto
qed

lemma round_even_le: "y \<le> of_int m \<Longrightarrow> round_even y \<le> m"
proof -
  assume a: "y \<le> of_int m"
  have f: "\<lfloor>y\<rfloor> \<le> m" using a by (simp add: floor_le_iff)
  show ?thesis
  proof (cases "of_int \<lfloor>y\<rfloor> = y")
    case True
    then have "round_even y = \<lfloor>y\<rfloor>"
      by (metis round_even_of_int)
    with f show ?thesis by simp
  next
    case False
    then have "of_int \<lfloor>y\<rfloor> < y" by linarith
    with a have "\<lfloor>y\<rfloor> < m" by linarith
    then have "\<lfloor>y\<rfloor> + 1 \<le> m" by simp
    then show ?thesis using f unfolding round_even_def Let_def by auto
  qed
qed

lemma fl_zero: "fl p emin 0 = 0"
  by (simp add: fl_def)

lemma fl_minus: "fl p emin (- x) = - fl p emin x"
  by (simp add: fl_def Let_def sgn_minus)

lemma fl_nonneg: "0 \<le> x \<Longrightarrow> 0 \<le> fl p emin x"
proof -
  assume x: "0 \<le> x"
  show ?thesis
  proof (cases "x = 0")
    case True
    then show ?thesis by (simp add: fl_zero)
  next
    case False
    with x have pos: "0 < x" by simp
    let ?q = "(2::real) powi (max (ilog2 \<bar>x\<bar>) emin - p + 1)"
    have q: "0 < ?q" by simp
    have "0 \<le> \<bar>x\<bar> / ?q" using q by simp
    then have "(0::int) \<le> round_even (\<bar>x\<bar> / ?q)"
      by (intro round_even_ge) simp
    then have "0 \<le> of_int (round_even (\<bar>x\<bar> / ?q)) * ?q" using q by simp
    then show ?thesis using pos by (simp add: fl_def Let_def)
  qed
qed

lemma fl_nonpos: "x \<le> 0 \<Longrightarrow> fl p emin x \<le> 0"
  using fl_nonneg[of "- x" p emin] by (simp add: fl_minus)

lemma fl_error:
  "\<bar>fl p emin x - x\<bar> \<le> \<bar>x\<bar> * 2 powi (- p) + 2 powi (emin - p)"
proof (cases "x = 0")
  case True
  then show ?thesis by (simp add: fl_zero)
next
  case False
  define E where "E = max (ilog2 \<bar>x\<bar>) emin"
  define q where "q = (2::real) powi (E - p + 1)"
  define m where "m = round_even (\<bar>x\<bar> / q)"
  have q: "0 < q" by (simp add: q_def)
  have fx: "fl p emin x = sgn x * (of_int m * q)"
    using False by (simp add: fl_def Let_def m_def q_def E_def)
  have "x = sgn x * \<bar>x\<bar>" by (simp add: sgn_mult_abs)
  then have "fl p emin x - x = sgn x * (of_int m * q - \<bar>x\<bar>)"
    by (simp add: fx algebra_simps)
  then have "\<bar>fl p emin x - x\<bar> = \<bar>of_int m * q - \<bar>x\<bar>\<bar>"
    using False by (simp add: abs_mult abs_sgn_eq)
  also have "of_int m * q - \<bar>x\<bar> = (of_int m - \<bar>x\<bar> / q) * q"
    using q by (simp add: field_simps)
  also have "\<bar>\<dots>\<bar> = \<bar>of_int m - \<bar>x\<bar> / q\<bar> * q"
    using q by (simp add: abs_mult)
  also have "\<dots> \<le> 1 / 2 * q"
    using round_even_error[of "\<bar>x\<bar> / q"] q unfolding m_def
    by (intro mult_right_mono) simp_all
  finally have h: "\<bar>fl p emin x - x\<bar> \<le> q / 2" by simp
  have "(2::real) powi (E - p + 1) = 2 powi (E - p) * 2 powi 1"
    by (rule power_int_add) simp
  then have q2: "q / 2 = 2 powi (E - p)" by (simp add: q_def)
  have pos: "0 < \<bar>x\<bar>" using False by simp
  have "2 powi (E - p) \<le> \<bar>x\<bar> * 2 powi (- p) + 2 powi (emin - p)"
  proof (cases "emin \<le> ilog2 \<bar>x\<bar>")
    case True
    then have "E = ilog2 \<bar>x\<bar>" by (simp add: E_def)
    then have "(2::real) powi (E - p) = 2 powi (ilog2 \<bar>x\<bar>) * 2 powi (- p)"
      using power_int_add[of "2::real" "ilog2 \<bar>x\<bar>" "- p"] by simp
    also have "\<dots> \<le> \<bar>x\<bar> * 2 powi (- p)"
      using ilog2_bounds[OF pos] by (intro mult_right_mono) simp_all
    finally show ?thesis by (smt (verit) zero_less_power_int)
  next
    case False
    then have "E = emin" by (simp add: E_def)
    then show ?thesis using pos by simp
  qed
  with h q2 show ?thesis by simp
qed


lemma ilog2_less:
  assumes "0 < y" and "y < 2 powi k"
  shows "ilog2 y < k"
proof (rule ccontr)
  assume "\<not> ilog2 y < k"
  then have "(2::real) powi k \<le> 2 powi (ilog2 y)"
    by (intro power_int_increasing) simp_all
  with ilog2_bounds[OF assms(1)] assms(2) show False by simp
qed

lemma ilog2_ge:
  assumes "2 powi k \<le> y"
  shows "k \<le> ilog2 y"
proof (rule ccontr)
  assume "\<not> k \<le> ilog2 y"
  then have "(2::real) powi (ilog2 y + 1) \<le> 2 powi k"
    by (intro power_int_increasing) simp_all
  moreover have "0 < y" using assms by (smt (verit) zero_less_power_int)
  ultimately show False using ilog2_bounds[of y] assms by simp
qed

lemma fl_exact:
  assumes "0 < n"
    and "max (ilog2 (of_int n * 2 powi c)) emin - p + 1 \<le> c"
  shows "fl p emin (of_int n * 2 powi c) = of_int n * 2 powi c"
proof -
  define y where "y = real_of_int n * 2 powi c"
  define d where "d = c - (max (ilog2 y) emin - p + 1)"
  define q where "q = (2::real) powi (max (ilog2 y) emin - p + 1)"
  have y: "0 < y" using assms(1) by (simp add: y_def)
  have d: "0 \<le> d" using assms(2) by (simp add: d_def y_def)
  have q: "0 < q" by (simp add: q_def)
  have "(2::real) powi c = 2 powi (d + (max (ilog2 y) emin - p + 1))"
    by (simp add: d_def)
  also have "\<dots> = 2 powi d * q"
    unfolding q_def by (rule power_int_add) simp
  finally have c: "(2::real) powi c = 2 powi d * q" .
  have "2 powi d = (2::real) ^ nat d" using d by (simp add: power_int_nonneg_exp)
  then have "y / q = of_int (n * 2 ^ nat d)"
    using q by (simp add: y_def c)
  moreover have "\<bar>y\<bar> = y" using y by simp
  ultimately have "round_even (\<bar>y\<bar> / q) = n * 2 ^ nat d"
    by (simp only: round_even_of_int)
  then have "fl p emin y = of_int (n * 2 ^ nat d) * q"
    using y by (simp add: fl_def Let_def q_def)
  also have "\<dots> = y"
    using d by (simp add: y_def c power_int_nonneg_exp)
  finally show ?thesis by (simp add: y_def)
qed

lemma fl_idem:
  assumes "1 \<le> p"
  shows "fl p emin (fl p emin x) = fl p emin x"
proof -
  have pos: "fl p emin (fl p emin x) = fl p emin x" if x: "0 < x" for x
  proof -
    define E where "E = max (ilog2 x) emin"
    define c where "c = E - p + 1"
    define m where "m = round_even (x / 2 powi c)"
    have fx: "fl p emin x = of_int m * 2 powi c"
      using x by (simp add: fl_def Let_def m_def c_def E_def)
    have "0 \<le> x / 2 powi c" using x by simp
    then have m0: "0 \<le> m" unfolding m_def by (intro round_even_ge) simp
    have "x < 2 powi (ilog2 x + 1)" using ilog2_bounds[OF x] by simp
    also have "\<dots> \<le> 2 powi (E + 1)"
      by (intro power_int_increasing) (simp_all add: E_def)
    also have "\<dots> = 2 powi p * 2 powi c"
      using power_int_add[of "2::real" p c] by (simp add: c_def)
    finally have "x / 2 powi c \<le> 2 powi p" by (simp add: field_simps)
    also have "\<dots> = of_int (2 ^ nat p)" using assms by (simp add: power_int_nonneg_exp)
    finally have mp: "m \<le> 2 ^ nat p" unfolding m_def by (rule round_even_le)
    show ?thesis
    proof (cases "m = 0")
      case True
      then show ?thesis by (simp add: fx fl_zero)
    next
      case False
      with m0 have mpos: "0 < m" by simp
      show ?thesis
      proof (cases "m = 2 ^ nat p")
        case True
        have "(2::real) powi p = 2 powi ((p - 1) + 1)" by simp
        also have "\<dots> = 2 powi (p - 1) * 2 powi 1"
          by (rule power_int_add) simp
        finally have pp: "(2::real) powi p = 2 powi (p - 1) * 2" by simp
        have "(2::real) powi (c + 1) = 2 powi c * 2 powi 1"
          by (rule power_int_add) simp
        then have cc: "(2::real) powi (c + 1) = 2 powi c * 2" by simp
        have "real_of_int m = 2 powi p" using True assms by (simp add: power_int_nonneg_exp)
        then have e: "of_int m * 2 powi c = of_int (2 ^ nat (p - 1)) * (2::real) powi (c + 1)"
          using assms by (simp add: pp cc power_int_nonneg_exp)
        have "of_int (2 ^ nat (p - 1)) * (2::real) powi (c + 1) = 2 powi (p - 1) * 2 powi (c + 1)"
          using assms by (simp add: power_int_nonneg_exp)
        also have "\<dots> = 2 powi ((p - 1) + (c + 1))"
          by (rule power_int_add[symmetric]) simp
        also have "(p - 1) + (c + 1) = E + 1" by (simp add: c_def)
        finally have v: "of_int (2 ^ nat (p - 1)) * (2::real) powi (c + 1) = 2 powi (E + 1)" .
        then have "ilog2 (of_int (2 ^ nat (p - 1)) * 2 powi (c + 1)) = E + 1"
          by (intro ilog2_unique) (simp_all add: power_int_strict_increasing)
        moreover have "emin \<le> E" by (simp add: E_def)
        ultimately have "max (ilog2 (of_int (2 ^ nat (p - 1)) * 2 powi (c + 1))) emin - p + 1 \<le> c + 1"
          by (simp add: c_def)
        from fl_exact[OF _ this] show ?thesis by (simp add: fx e)
      next
        case False
        with mp have "m < 2 ^ nat p" by simp
        then have "real_of_int m < of_int (2 ^ nat p)" by (simp only: of_int_less_iff)
        also have "\<dots> = 2 powi p" using assms by (simp add: power_int_nonneg_exp)
        finally have "of_int m * 2 powi c < 2 powi p * (2::real) powi c"
          by (intro mult_strict_right_mono) simp_all
        also have "\<dots> = 2 powi (E + 1)"
          using power_int_add[of "2::real" p c] by (simp add: c_def)
        finally have lt: "of_int m * 2 powi c < (2::real) powi (E + 1)" .
        have "0 < of_int m * (2::real) powi c" using mpos by simp
        from ilog2_less[OF this lt] have "ilog2 (of_int m * 2 powi c) \<le> E" by simp
        moreover have "emin \<le> E" by (simp add: E_def)
        ultimately have "max (ilog2 (of_int m * 2 powi c)) emin - p + 1 \<le> c"
          by (simp add: c_def)
        from fl_exact[OF mpos this] show ?thesis by (simp add: fx)
      qed
    qed
  qed
  show ?thesis
  proof (cases "0 < x")
    case True
    then show ?thesis by (rule pos)
  next
    case False
    show ?thesis
    proof (cases "x = 0")
      case True
      then show ?thesis by (simp add: fl_zero)
    next
      case ne: False
      with False have "0 < - x" by simp
      from pos[OF this] show ?thesis by (simp add: fl_minus)
    qed
  qed
qed

lemmas fl_eval = f64_def f32_def fl_def ilog2_def round_even_def Let_def bit_length.simps
  power_int_minus

lemma EPSILON_val: "EPSILON = 5902958103587057 / 590295810358705651712"
  by (simp add: EPSILON_def fl_eval)

lemma EPSILON_pos: "0 < EPSILON"
  by (simp add: EPSILON_val)

lemma f64_error: "\<bar>f64 x - x\<bar> \<le> \<bar>x\<bar> * 2 powi (- 53) + 2 powi (- 1075)"
  using fl_error[of 53 "- 1022" x] by (simp add: f64_def)

lemma f32_error: "\<bar>f32 x - x\<bar> \<le> \<bar>x\<bar> * 2 powi (- 24) + 2 powi (- 150)"
  using fl_error[of 24 "- 126" x] by (simp add: f32_def)

lemma f64_nonneg: "0 \<le> x \<Longrightarrow> 0 \<le> f64 x"
  by (simp add: f64_def fl_nonneg)

lemma f64_nonpos: "x \<le> 0 \<Longrightarrow> f64 x \<le> 0"
  by (simp add: f64_def fl_nonpos)

lemma f32_nonneg: "0 \<le> x \<Longrightarrow> 0 \<le> f32 x"
  by (simp add: f32_def fl_nonneg)

lemma f32_idem: "f32 (f32 x) = f32 x"
  by (simp add: f32_def fl_idem)

lemma f64_idem: "f64 (f64 x) = f64 x"
  by (simp add: f64_def fl_idem)

lemma f32_zero: "f32 0 = 0"
  by (simp add: f32_def fl_zero)

lemma f64_zero: "f64 0 = 0"
  by (simp add: f64_def fl_zero)

lemma f32_minus: "f32 (- x) = - f32 x"
  by (simp add: f32_def fl_minus)

lemma f32_one: "f32 1 = 1" "f32 2 = 2"
  by (simp_all add: fl_eval)

lemma f64_half: "f64 (1 / 2) = 1 / 2" "f64 1 = 1" "f64 (1 / 2 + 1 / 2) = 1" "f64 (0 + 1 / 2) = 1 / 2"
  by (simp_all add: fl_eval)

subsection \<open>Matrices\<close>

lemma f32_neg_one: "f32 (- 1) = - 1"
  by (simp add: f32_minus f32_one)

lemma translate_translation:
  "translate (translation 0 0 c) 0 0 z = translation 0 0 (f32 (c + f32 z))"
  by (simp add: translate_def translation_def translate_row_def add32_def mul32_def
      f32_zero f32_idem f32_one)

lemma translate_identity: "translate identity 0 0 z = translation 0 0 (f32 z)"
  by (simp add: translate_def translation_def identity_def translate_row_def add32_def mul32_def
      f32_zero f32_idem f32_one)

lemma translate_funpow:
  "((\<lambda>m. translate m 0 0 z) ^^ n) (translation 0 0 c)
     = translation 0 0 (((\<lambda>c. f32 (c + f32 z)) ^^ n) c)"
  by (induction n) (simp_all add: translate_translation)

lemma mat_apply_translation:
  "mat_apply (translation a b c) (Vec4 x y z 1) = Vec4 (x + a) (y + b) (z + c) 1"
  by (simp add: mat_apply_def translation_def dot_def)

lemma ortho_degenerate:
  "f32 l = f32 r \<or> f32 b = f32 t \<or> f32 n = f32 f \<Longrightarrow> ortho m l r b t n f = m"
  by (auto simp add: ortho_def)

lemma ortho_identity:
  assumes "f32 W \<noteq> 0" and "f32 H \<noteq> 0" and "f32 T \<noteq> 0"
  shows "ortho identity 0 W 0 H (- T) T =
     Mat4 (Vec4 (f32 (2 / f32 W)) 0 0 (- 1))
          (Vec4 0 (f32 (2 / f32 H)) 0 (- 1))
          (Vec4 0 0 (f32 (- 2 / f32 (f32 T + f32 T))) 0)
          (Vec4 0 0 0 1)"
proof -
  have n: "f32 (- T) \<noteq> f32 T" using assms(3) by (simp add: f32_minus)
  have m: "ortho_matrix (f32 0) (f32 W) (f32 0) (f32 H) (f32 (- T)) (f32 T) =
     Mat4 (Vec4 (f32 (2 / f32 W)) 0 0 (- 1))
          (Vec4 0 (f32 (2 / f32 H)) 0 (- 1))
          (Vec4 0 0 (f32 (- 2 / f32 (f32 T + f32 T))) 0)
          (Vec4 0 0 0 1)"
    using assms
    by (simp add: ortho_matrix_def Let_def sub32_def add32_def div32_def f32_zero f32_idem
        f32_minus f32_one f32_neg_one)
  have "ortho identity 0 W 0 H (- T) T
          = mat_mul identity (ortho_matrix (f32 0) (f32 W) (f32 0) (f32 H) (f32 (- T)) (f32 T))"
    using assms n by (simp add: ortho_def f32_zero)
  also have "\<dots> = Mat4 (Vec4 (f32 (2 / f32 W)) 0 0 (- 1))
          (Vec4 0 (f32 (2 / f32 H)) 0 (- 1))
          (Vec4 0 0 (f32 (- 2 / f32 (f32 T + f32 T))) 0)
          (Vec4 0 0 0 1)"
    unfolding m
    by (simp add: mat_mul_def identity_def row_mul_def mat_col_def dot32_def add32_def mul32_def
        f32_zero f32_idem f32_one f32_neg_one)
  finally show ?thesis .
qed

lemma in_clip_scale:
  assumes "0 < a" and "0 < b" and "c < 0"
  shows "in_clip (mat_apply (Mat4 (Vec4 a 0 0 (- 1)) (Vec4 0 b 0 (- 1)) (Vec4 0 0 c 0) (Vec4 0 0 0 1))
            (Vec4 x y z 1))
         \<longleftrightarrow> 0 \<le> x \<and> x \<le> 2 / a \<and> 0 \<le> y \<and> y \<le> 2 / b \<and> 1 / c \<le> z \<and> z \<le> - 1 / c"
proof -
  have "- 1 \<le> a * x - 1 \<longleftrightarrow> 0 \<le> x" "a * x - 1 \<le> 1 \<longleftrightarrow> x \<le> 2 / a"
    using assms(1) by (simp_all add: field_simps zero_le_mult_iff)
  moreover have "- 1 \<le> b * y - 1 \<longleftrightarrow> 0 \<le> y" "b * y - 1 \<le> 1 \<longleftrightarrow> y \<le> 2 / b"
    using assms(2) by (simp_all add: field_simps zero_le_mult_iff)
  moreover have "- 1 \<le> c * z \<longleftrightarrow> z \<le> - 1 / c" "c * z \<le> 1 \<longleftrightarrow> 1 / c \<le> z"
    using assms(3) by (simp_all add: field_simps)
  ultimately show ?thesis
    by (simp add: in_clip_def mat_apply_def dot_def) blast
qed

subsection \<open>The stencil sequence in the context\<close>

lemma funpow_always:
  fixes f :: "nat \<Rightarrow> nat" and c :: rgba
  shows "((\<lambda>vc. (f (fst vc), c)) ^^ n) (v, c0) = ((f ^^ n) v, if n = 0 then c0 else c)"
  by (induction n) auto

lemma funpow_keep:
  fixes c :: rgba and v :: nat
  shows "((\<lambda>vc. if P (fst vc) then (fst vc, c) else (fst vc, snd vc)) ^^ n) (v, c0) = (v, if 0 < n \<and> P v then c else c0)"
  by (induction n) auto

lemma fragments_always:
  assumes "stencil_test g" and "stencil_func g = GL_ALWAYS"
  shows "(fragment_op gp g ^^ n) (v, c) =
           ((stencil_apply (op_zpass g) ^^ n) v, if n = 0 then c else frag_color gp)"
proof -
  have "fragment_op gp g = (\<lambda>vc. (stencil_apply (op_zpass g) (fst vc), frag_color gp))"
    using assms by (simp add: fragment_op_def fun_eq_iff stencil_passes_def)
  then show ?thesis by (simp add: funpow_always)
qed

lemma fragments_notequal_keep:
  assumes "stencil_test g" and "stencil_func g = GL_NOTEQUAL"
    and "op_zpass g = GL_KEEP" and "op_sfail g = GL_KEEP"
  shows "(fragment_op gp g ^^ n) (v, c) =
           (v, if 0 < n \<and> stencil_ref g AND stencil_mask g \<noteq> v AND stencil_mask g
               then frag_color gp else c)"
proof -
  have "fragment_op gp g =
          (\<lambda>vc. if stencil_ref g AND stencil_mask g \<noteq> fst vc AND stencil_mask g
                 then (fst vc, frag_color gp) else (fst vc, snd vc))"
    using assms by (simp add: fragment_op_def fun_eq_iff stencil_passes_def stencil_apply_def)
  then show ?thesis
    using funpow_keep[where P = "\<lambda>x. stencil_ref g AND stencil_mask g \<noteq> x AND stencil_mask g"]
    by simp
qed

lemma gl_run_Nil: "gl_run gp [] g = g"
  by (simp add: gl_run_def)

lemma gl_run_Cons: "gl_run gp (c # cs) g = gl_run gp cs (gl_exec gp c g)"
  by (simp add: gl_run_def)

lemma gl_run_append: "gl_run gp (cs @ ds) g = gl_run gp ds (gl_run gp cs g)"
  by (simp add: gl_run_def)

lemma stencil_sequence_run:
  "gl_run gp (stencil_sequence w) g =
     g\<lparr>stencil_test := False, cull_face := False, cull_mode := GL_BACK,
       clear_color := (0, 0, 0, 1),
       stencil_func := GL_NOTEQUAL, stencil_ref := 0, stencil_mask := 255,
       op_sfail := GL_KEEP, op_zfail := GL_KEEP, op_zpass := GL_KEEP,
       bound_vao := Some MaskVAO, program_bound := True,
       uniforms := (uniforms g)(''proj'' := proj w, ''model'' := model w),
       color_buf := (color_buf g)(bound_fbo g := (\<lambda>p.
          masked gp (take 6 (vbo g MaskVAO)) (proj w) (model w) (viewport g)
            (winding gp (take (nat (numOfVerts w)) (vbo g VertVAO)) (proj w) (model w) (viewport g) p) p)),
       stencil_buf := (stencil_buf g)(bound_fbo g := (\<lambda>p.
          winding gp (take (nat (numOfVerts w)) (vbo g VertVAO)) (proj w) (model w) (viewport g) p))\<rparr>"
  by (simp add: gl_run_def stencil_sequence_def gl_exec_def draw_arrays_def Let_def
    surviving_def clear_rgba_def to8_def fragments_always fragments_notequal_keep
    winding_def masked_def fun_eq_iff)

lemma draw_shape:
  "draw w = (w\<lparr>model := translate (model w) 0 0 (- layerThickness w)\<rparr>,
             glViewport 0 0 (fst (winSize w)) (snd (winSize w))
               # stencil_sequence (w\<lparr>model := translate (model w) 0 0 (- layerThickness w)\<rparr>)
               @ [ReleaseProgram])"
  by (simp add: draw_def stencil_sequence_def Let_def)

lemma renderSlice_calls_shape:
  "renderSlice_calls pr w =
     BindFramebuffer SliceFbo # glViewport 0 0 (printer_width pr) (printer_height pr) # stencil_sequence w"
  by (simp add: renderSlice_calls_def stencil_sequence_def)

lemma renderSlice_calls_run:
  "gl_run gp (renderSlice_calls pr w) g =
     gl_run gp (stencil_sequence w)
       (g\<lparr>bound_fbo := SliceFbo, viewport := (0, 0, printer_width pr, printer_height pr)\<rparr>)"
  by (simp add: renderSlice_calls_shape gl_run_Cons gl_exec_def)

lemma draw_run:
  "gl_run gp (snd (draw w)) g =
     (gl_run gp (stencil_sequence (fst (draw w)))
        (g\<lparr>viewport := (0, 0, fst (winSize w), snd (winSize w))\<rparr>))\<lparr>program_bound := False\<rparr>"
  by (simp add: draw_shape gl_run_Cons gl_run_append gl_run_Nil gl_exec_def)

lemma slice_pixels:
  "color_buf (gl_run gp (renderSlice_calls pr w) g) SliceFbo p =
     masked gp (take 6 (vbo g MaskVAO)) (proj w) (model w) (0, 0, printer_width pr, printer_height pr)
       (winding gp (take (nat (numOfVerts w)) (vbo g VertVAO)) (proj w) (model w)
          (0, 0, printer_width pr, printer_height pr) p) p"
  "stencil_buf (gl_run gp (renderSlice_calls pr w) g) SliceFbo p =
     winding gp (take (nat (numOfVerts w)) (vbo g VertVAO)) (proj w) (model w)
       (0, 0, printer_width pr, printer_height pr) p"
  "vbo (gl_run gp (renderSlice_calls pr w) g) = vbo g"
  by (simp_all add: renderSlice_calls_run stencil_sequence_run)

lemma draw_pixels:
  "color_buf (gl_run gp (snd (draw w)) g) (bound_fbo g) p =
     masked gp (take 6 (vbo g MaskVAO)) (proj w) (model (fst (draw w))) (0, 0, fst (winSize w), snd (winSize w))
       (winding gp (take (nat (numOfVerts w)) (vbo g VertVAO)) (proj w) (model (fst (draw w)))
          (0, 0, fst (winSize w), snd (winSize w)) p) p"
  "stencil_buf (gl_run gp (snd (draw w)) g) (bound_fbo g) p =
     winding gp (take (nat (numOfVerts w)) (vbo g VertVAO)) (proj w) (model (fst (draw w)))
       (0, 0, fst (winSize w), snd (winSize w)) p"
  "vbo (gl_run gp (snd (draw w)) g) = vbo g"
  by (simp_all add: draw_run stencil_sequence_run) (simp_all add: draw_shape)

lemma toImage_cong:
  "color_buf g SliceFbo = color_buf g' SliceFbo \<Longrightarrow> toImage pr g = toImage pr g'"
  by (simp add: toImage_def)

lemma draw_passes_append:
  "draw_passes gp g (cs @ ds) = draw_passes gp g cs @ draw_passes gp (gl_run gp cs g) ds"
  by (induction cs arbitrary: g) (simp_all add: gl_run_Nil gl_run_Cons)

lemma draw_arrays_settings:
  "cull_face (draw_arrays gp a n g) = cull_face g"
  "cull_mode (draw_arrays gp a n g) = cull_mode g"
  "op_zpass (draw_arrays gp a n g) = op_zpass g"
  by (simp_all add: draw_arrays_def Let_def split: option.splits)

lemma stencil_sequence_passes:
  "draw_passes gp g (stencil_sequence w) =
     [(True, GL_FRONT, GL_INCR, numOfVerts w),
      (True, GL_BACK, GL_DECR, numOfVerts w),
      (False, GL_BACK, GL_KEEP, 6)]"
  by (simp add: stencil_sequence_def gl_exec_def draw_arrays_settings)

subsection \<open>Loading the mesh\<close>

lemma coords_Cons: "coords k (t # ts) = k (fst t) # k (fst (snd t)) # k (snd (snd t)) # coords k ts"
  by (simp add: coords_def vertices_def split_def)

lemma loadMesh_empty: "loadMesh pr [] w = Inl ValueError"
  by (simp add: loadMesh_def coords_def vertices_def bind_exn_def)

lemma loadMesh_nonempty:
  "\<exists>w' cs. loadMesh pr (t # ts) w = Inr (w', cs) \<and> numOfVerts w' = int (length (t # ts)) * 3"
  by (simp add: loadMesh_def coords_Cons bind_exn_def Let_def dict_get_def)

lemma initializeGL_empty: "initializeGL gp pr [] s = Inl ValueError"
  by (simp add: initializeGL_def loadMesh_empty bind_exn_def)

lemma initializeGL_nonempty:
  assumes "ourMesh = t # ts"
  shows "\<exists>s'. initializeGL gp pr ourMesh s = Inr s'
     \<and> files s' = files s
     \<and> height (win s') = height (win s)
     \<and> currentLayer (win s') = currentLayer (win s)
     \<and> layerThickness (win s') = layerThickness (win s)
     \<and> sliceSavePath (win s') = sliceSavePath (win s)
     \<and> winSize (win s') = winSize (win s)
     \<and> numOfVerts (win s') = int (length ourMesh) * 3
     \<and> totalThickness (win s') = f32 (fold max (tl (coords vz ourMesh)) (hd (coords vz ourMesh))
                                      - fold min (tl (coords vz ourMesh)) (hd (coords vz ourMesh)))
     \<and> proj (win s') = ortho identity 0 (plate_width pr) 0 (plate_height pr)
                                       (- totalThickness (win s')) (totalThickness (win s'))
     \<and> model (win s') = translate identity 0 0 (f64 (totalThickness (win s') + EPSILON))
     \<and> bound_fbo (gl s') = bound_fbo (gl s)
     \<and> vbo (gl s') VertVAO = vertices ourMesh \<and> vbo (gl s') MaskVAO = maskVert pr"
  by (simp add: assms initializeGL_def loadMesh_def coords_Cons bind_exn_def Let_def dict_get_def
      gl_run_Cons gl_run_Nil gl_exec_def)

lemma initializeGL_Inr:
  assumes "initializeGL gp pr ourMesh s = Inr s'"
  shows "ourMesh \<noteq> []
     \<and> files s' = files s
     \<and> height (win s') = height (win s)
     \<and> currentLayer (win s') = currentLayer (win s)
     \<and> layerThickness (win s') = layerThickness (win s)
     \<and> sliceSavePath (win s') = sliceSavePath (win s)
     \<and> winSize (win s') = winSize (win s)
     \<and> numOfVerts (win s') = int (length ourMesh) * 3
     \<and> totalThickness (win s') = f32 (fold max (tl (coords vz ourMesh)) (hd (coords vz ourMesh))
                                      - fold min (tl (coords vz ourMesh)) (hd (coords vz ourMesh)))
     \<and> proj (win s') = ortho identity 0 (plate_width pr) 0 (plate_height pr)
                                       (- totalThickness (win s')) (totalThickness (win s'))
     \<and> model (win s') = translate identity 0 0 (f64 (totalThickness (win s') + EPSILON))
     \<and> bound_fbo (gl s') = bound_fbo (gl s)
     \<and> vbo (gl s') VertVAO = vertices ourMesh \<and> vbo (gl s') MaskVAO = maskVert pr"
proof (cases ourMesh)
  case Nil
  with assms show ?thesis by (simp add: initializeGL_empty)
next
  case (Cons t ts)
  from initializeGL_nonempty[OF Cons, of gp pr s] assms Cons show ?thesis by auto
qed

lemma initializeGL_thickness:
  assumes "initializeGL gp pr ourMesh s = Inr s'"
  shows "f32 (totalThickness (win s')) = totalThickness (win s')"
  using initializeGL_Inr[OF assms] by (simp add: f32_idem)

lemma initializeGL_model:
  assumes "initializeGL gp pr ourMesh s = Inr s'"
  shows "model (win s') = translation 0 0 (f32 (f64 (totalThickness (win s') + EPSILON)))"
  using initializeGL_Inr[OF assms] by (simp add: translate_identity)

subsection \<open>The repaint loop\<close>

lemma win_renderSlice: "win (renderSlice gp pr wr s) = win s"
  by (simp add: renderSlice_def Let_def split_def)

lemma vbo_renderSlice: "vbo (gl (renderSlice gp pr wr s)) = vbo (gl s)"
  by (simp add: renderSlice_def Let_def split_def gl_exec_def slice_pixels)

lemma files_renderSlice:
  "files (renderSlice gp pr wr s)
     = (if wr (slicePath (win s)) then (files s)(slicePath (win s) \<mapsto> sliceRaster gp pr s) else files s)"
  by (simp add: renderSlice_def Let_def split_def QImage_save_def sliceRaster_def)

lemma paintGL_exit:
  "f64 (totalThickness (win s) - EPSILON) \<le> height (win s) \<Longrightarrow> paintGL gp pr wr s = Inl SystemExit"
  by (simp add: paintGL_def)

lemma paintGL_layer:
  assumes "height (win s) < f64 (totalThickness (win s) - EPSILON)"
  shows "\<exists>s'. paintGL gp pr wr s = Inr s' \<and>
           win s' = (win s)\<lparr>height := f64 (height (win s) + layerThickness (win s)),
                            currentLayer := currentLayer (win s) + 1,
                            model := translate (model (win s)) 0 0 (- layerThickness (win s))\<rparr>"
  using assms by (simp add: paintGL_def draw_def Let_def split_def win_renderSlice)

lemma paintGL_Inr_win:
  assumes "paintGL gp pr wr s = Inr s'"
  shows "win s' = (win s)\<lparr>height := f64 (height (win s) + layerThickness (win s)),
                            currentLayer := currentLayer (win s) + 1,
                            model := translate (model (win s)) 0 0 (- layerThickness (win s))\<rparr>"
  using assms by (auto simp add: paintGL_def draw_def Let_def split_def win_renderSlice split: if_splits)

lemma paintGL_Inl:
  assumes "paintGL gp pr wr s = Inl e"
  shows "e = SystemExit \<and> f64 (totalThickness (win s) - EPSILON) \<le> height (win s)"
  using assms by (auto simp add: paintGL_def Let_def split_def split: if_splits)

lemma paintGL_Inr_less:
  assumes "paintGL gp pr wr s = Inr s'"
  shows "height (win s) < f64 (totalThickness (win s) - EPSILON)"
  using assms by (auto simp add: paintGL_def Let_def split_def split: if_splits)


lemma paintGL_Inr_gl:
  assumes "paintGL gp pr wr s = Inr s'"
  shows "gl s' =
    (gl_run gp (renderSlice_calls pr (win s'))
       (gl_run gp (snd (draw ((win s)\<lparr>height := f64 (height (win s) + layerThickness (win s)),
                                        currentLayer := currentLayer (win s) + 1\<rparr>))) (gl s)))
    \<lparr>bound_fbo := DefaultFbo\<rparr>"
proof -
  from assms have "s' = renderSlice gp pr wr
      (s\<lparr>win := fst (draw ((win s)\<lparr>height := f64 (height (win s) + layerThickness (win s)),
                                     currentLayer := currentLayer (win s) + 1\<rparr>)),
         gl := gl_run gp (snd (draw ((win s)\<lparr>height := f64 (height (win s) + layerThickness (win s)),
                                              currentLayer := currentLayer (win s) + 1\<rparr>))) (gl s)\<rparr>)"
    by (simp add: paintGL_def Let_def split_def split: if_splits)
  then show ?thesis
    by (simp add: renderSlice_def Let_def split_def gl_exec_def)
qed

lemma paintGL_Inr_stencil:
  assumes "paintGL gp pr wr s = Inr s'"
  shows "stencil_buf (gl s') SliceFbo p =
     winding gp (take (nat (numOfVerts (win s'))) (vbo (gl s) VertVAO)) (proj (win s')) (model (win s'))
       (0, 0, printer_width pr, printer_height pr) p"
  by (simp add: paintGL_Inr_gl[OF assms] slice_pixels draw_pixels)

lemma paintGL_Inr_fbo:
  assumes "paintGL gp pr wr s = Inr s'"
  shows "bound_fbo (gl s') = DefaultFbo" and "vbo (gl s') = vbo (gl s)"
  by (simp_all add: paintGL_Inr_gl[OF assms] slice_pixels draw_pixels)


lemma height_funpow_swap:
  "((\<lambda>h. f64 (h + L)) ^^ n) (f64 (x + L)) = f64 (((\<lambda>h. f64 (h + L)) ^^ n) x + L)"
  using funpow_swap1[of "\<lambda>h. f64 (h + L)" n x] by simp

lemma model_funpow_swap:
  "((\<lambda>m. translate m 0 0 z) ^^ n) (translate m 0 0 z)
     = translate (((\<lambda>m. translate m 0 0 z) ^^ n) m) 0 0 z"
  using funpow_swap1[of "\<lambda>m. translate m 0 0 z" n m] by simp

lemma repaint_win:
  assumes "repaint gp pr wr n s = Inr s'"
  shows "win s' = (win s)\<lparr>height := ((\<lambda>h. f64 (h + layerThickness (win s))) ^^ n) (height (win s)),
                            currentLayer := currentLayer (win s) + int n,
                            model := ((\<lambda>m. translate m 0 0 (- layerThickness (win s))) ^^ n) (model (win s))\<rparr>"
  using assms
proof (induction n arbitrary: s)
  case 0
  then show ?case by simp
next
  case (Suc n)
  from Suc.prems obtain s1 where p: "paintGL gp pr wr s = Inr s1" and r: "repaint gp pr wr n s1 = Inr s'"
    by (auto split: sum.splits)
  show ?case
    by (simp add: Suc.IH[OF r] paintGL_Inr_win[OF p] height_funpow_swap model_funpow_swap)
qed


lemma repaint_fbo:
  assumes "repaint gp pr wr n s = Inr s'" and "bound_fbo (gl s) = DefaultFbo"
  shows "bound_fbo (gl s') = DefaultFbo \<and> vbo (gl s') = vbo (gl s)"
  using assms
proof (induction n arbitrary: s)
  case 0
  then show ?case by simp
next
  case (Suc n)
  from Suc.prems obtain s1 where p: "paintGL gp pr wr s = Inr s1" and r: "repaint gp pr wr n s1 = Inr s'"
    by (auto split: sum.splits)
  from Suc.IH[OF r paintGL_Inr_fbo(1)[OF p]] paintGL_Inr_fbo(2)[OF p] show ?case by simp
qed

lemma event_loop_repaint:
  assumes "repaint gp pr wr n s = Inr s'" and "paintGL gp pr wr s' = Inl e"
  shows "event_loop gp pr wr s = Some (e, s')"
  using assms
proof (induction n arbitrary: s)
  case 0
  then show ?case by (subst event_loop.simps) simp
next
  case (Suc n)
  from Suc.prems(1) obtain s1 where p: "paintGL gp pr wr s = Inr s1" and r: "repaint gp pr wr n s1 = Inr s'"
    by (auto split: sum.splits)
  from Suc.IH[OF r Suc.prems(2)] show ?case
    by (subst event_loop.simps) (simp add: p)
qed

lemma repaint_run:
  assumes "\<forall>k<n. ((\<lambda>h. f64 (h + layerThickness (win s))) ^^ k) (height (win s))
                  < f64 (totalThickness (win s) - EPSILON)"
  shows "\<exists>s'. repaint gp pr wr n s = Inr s'"
  using assms
proof (induction n arbitrary: s)
  case 0
  then show ?case by simp
next
  case (Suc n)
  let ?L = "layerThickness (win s)"
  from Suc.prems have "((\<lambda>h. f64 (h + ?L)) ^^ 0) (height (win s)) < f64 (totalThickness (win s) - EPSILON)"
    by blast
  then have lt: "height (win s) < f64 (totalThickness (win s) - EPSILON)" by simp
  from paintGL_layer[OF lt] obtain s1 where
    p: "paintGL gp pr wr s = Inr s1" and
    w: "win s1 = (win s)\<lparr>height := f64 (height (win s) + ?L),
                            currentLayer := currentLayer (win s) + 1,
                            model := translate (model (win s)) 0 0 (- ?L)\<rparr>"
    by blast
  have "\<forall>k<n. ((\<lambda>h. f64 (h + layerThickness (win s1))) ^^ k) (height (win s1))
                  < f64 (totalThickness (win s1) - EPSILON)"
  proof (intro allI impI)
    fix k assume "k < n"
    then have "Suc k < Suc n" by simp
    with Suc.prems have "((\<lambda>h. f64 (h + ?L)) ^^ Suc k) (height (win s)) < f64 (totalThickness (win s) - EPSILON)"
      by blast
    then show "((\<lambda>h. f64 (h + layerThickness (win s1))) ^^ k) (height (win s1))
                  < f64 (totalThickness (win s1) - EPSILON)"
      by (simp add: w height_funpow_swap)
  qed
  from Suc.IH[OF this] obtain s' where "repaint gp pr wr n s1 = Inr s'" by blast
  then show ?case by (simp add: p)
qed

lemma run_exact:
  assumes "\<forall>k<n. ((\<lambda>h. f64 (h + layerThickness (win s))) ^^ k) (height (win s))
                  < f64 (totalThickness (win s) - EPSILON)"
    and "f64 (totalThickness (win s) - EPSILON)
             \<le> ((\<lambda>h. f64 (h + layerThickness (win s))) ^^ n) (height (win s))"
  shows "\<exists>s'. event_loop gp pr wr s = Some (SystemExit, s')
      \<and> repaint gp pr wr n s = Inr s'
      \<and> paintGL gp pr wr s' = Inl SystemExit"
proof -
  from repaint_run[OF assms(1), of gp pr wr] obtain s' where r: "repaint gp pr wr n s = Inr s'" by blast
  from repaint_win[OF r] assms(2) have "f64 (totalThickness (win s') - EPSILON) \<le> height (win s')"
    by simp
  from paintGL_exit[OF this] have e: "paintGL gp pr wr s' = Inl SystemExit" .
  from event_loop_repaint[OF r e] r e show ?thesis by blast
qed


lemma event_loop_exits:
  assumes "f64 (totalThickness (win s) - EPSILON)
             \<le> ((\<lambda>h. f64 (h + layerThickness (win s))) ^^ N) (height (win s))"
  shows "\<exists>n s'. n \<le> N \<and> event_loop gp pr wr s = Some (SystemExit, s')
      \<and> repaint gp pr wr n s = Inr s'
      \<and> paintGL gp pr wr s' = Inl SystemExit
      \<and> (\<forall>k<n. ((\<lambda>h. f64 (h + layerThickness (win s))) ^^ k) (height (win s))
                  < f64 (totalThickness (win s) - EPSILON))
      \<and> f64 (totalThickness (win s) - EPSILON)
             \<le> ((\<lambda>h. f64 (h + layerThickness (win s))) ^^ n) (height (win s))"
proof -
  let ?hs = "\<lambda>k. ((\<lambda>h. f64 (h + layerThickness (win s))) ^^ k) (height (win s))"
  let ?th = "f64 (totalThickness (win s) - EPSILON)"
  define n where "n = (LEAST k. ?th \<le> ?hs k)"
  have n1: "?th \<le> ?hs n" unfolding n_def using assms by (rule LeastI)
  have n2: "n \<le> N" unfolding n_def using assms by (rule Least_le)
  have n3: "\<forall>k<n. ?hs k < ?th"
  proof (intro allI impI)
    fix k assume "k < n"
    then have "\<not> ?th \<le> ?hs k" unfolding n_def by (rule not_less_Least)
    then show "?hs k < ?th" by simp
  qed
  from repaint_run[OF n3, of gp pr wr] obtain s' where r: "repaint gp pr wr n s = Inr s'" by blast
  from repaint_win[OF r] n1 have "f64 (totalThickness (win s') - EPSILON) \<le> height (win s')"
    by simp
  from paintGL_exit[OF this] have e: "paintGL gp pr wr s' = Inl SystemExit" .
  from event_loop_repaint[OF r e] r e n1 n2 n3 show ?thesis by blast
qed

subsection \<open>Progress of the height\<close>




lemma tiny_pos: "0 < (2::real) powi (- 1075)"
  by (rule zero_less_power_int) simp


lemma heights_nonneg:
  "0 \<le> h \<Longrightarrow> 0 \<le> L \<Longrightarrow> 0 \<le> ((\<lambda>h. f64 (h + L)) ^^ n) h"
  by (induction n) (simp_all add: f64_nonneg)




subsection \<open>Accumulated rounding and the number of layers\<close>

lemma f64_error_div:
  "\<bar>f64 y - y\<bar> \<le> \<bar>y\<bar> / 2 ^ 53 + 2 powi (- 1075)"
proof -
  define e where "e = (2::real) powi (- 1075)"
  have p: "(2::real) powi (- 53) = 1 / 2 ^ 53" by (simp add: power_int_minus)
  have "\<bar>f64 y - y\<bar> \<le> \<bar>y\<bar> * 2 powi (- 53) + e" unfolding e_def by (rule f64_error)
  then have "\<bar>f64 y - y\<bar> \<le> \<bar>y\<bar> / 2 ^ 53 + e" by (simp add: p)
  then show ?thesis unfolding e_def .
qed

lemma tiny_le: "(2::real) powi (- 1075) \<le> 1 / 2 ^ 68"
proof -
  have "(2::real) powi (- 1075) \<le> 2 powi (- 68)"
    by (rule power_int_increasing) simp_all
  also have "\<dots> = 1 / 2 ^ 68" by (simp add: power_int_minus)
  finally show ?thesis .
qed

lemma heights_error:
  fixes L a B :: real
  assumes "0 \<le> L" and "0 \<le> a" and "B / 2 ^ 53 + 2 powi (- 1075) \<le> a"
  shows "real n * L + real n * a \<le> B
         \<Longrightarrow> \<bar>((\<lambda>h. f64 (h + L)) ^^ n) 0 - real n * L\<bar> \<le> real n * a"
proof (induction n)
  case 0
  then show ?case by simp
next
  case (Suc n)
  define e where "e = (2::real) powi (- 1075)"
  define x where "x = ((\<lambda>h. f64 (h + L)) ^^ n) 0"
  have s: "real (Suc n) * L = real n * L + L" "real (Suc n) * a = real n * a + a"
    by (simp_all add: algebra_simps)
  from Suc.prems have b: "real n * L + L + (real n * a + a) \<le> B" by (simp only: s)
  then have "real n * L + real n * a \<le> B" using assms(1,2) by linarith
  from Suc.IH[OF this] have ih: "\<bar>x - real n * L\<bar> \<le> real n * a" by (simp add: x_def)
  have n0: "0 \<le> real n * L" "0 \<le> real n * a" using assms(1,2) by simp_all
  have y: "\<bar>x + L\<bar> \<le> B" using ih b n0 assms(1,2) by linarith
  have "\<bar>f64 (x + L) - (x + L)\<bar> \<le> \<bar>x + L\<bar> / 2 ^ 53 + e"
    unfolding e_def by (rule f64_error_div)
  moreover have "\<bar>x + L\<bar> / 2 ^ 53 \<le> B / 2 ^ 53" using y by (simp add: divide_right_mono)
  moreover have "B / 2 ^ 53 + e \<le> a" using assms(3) unfolding e_def .
  ultimately have "\<bar>f64 (x + L) - (x + L)\<bar> \<le> a" by linarith
  with ih have "\<bar>f64 (x + L) - (real n * L + L)\<bar> \<le> real n * a + a" by linarith
  then show ?case by (simp only: s funpow.simps o_apply x_def)
qed

lemma EPSILON_bounds: "1 / 2 ^ 17 \<le> EPSILON" "EPSILON \<le> 1 / 2 ^ 16"
  by (simp_all add: EPSILON_val)

lemma window_upper:
  fixes th T E hs u d19 d20 d17 :: real
  assumes "\<bar>th - (T - E)\<bar> \<le> d20" and "d17 \<le> E" and "\<bar>hs - u\<bar> \<le> d19" and "T \<le> u"
    and "d19 + d20 \<le> d17"
  shows "th \<le> hs"
  using assms by linarith

lemma window_lower:
  fixes th T E hs kL L d19 d20 d17 :: real
  assumes "\<bar>th - (T - E)\<bar> \<le> d20" and "d17 \<le> E" and "\<bar>hs - kL\<bar> \<le> d19" and "kL < T - L"
    and "2 * E \<le> L" and "d19 + d20 \<le> d17"
  shows "hs < th"
  using assms by linarith

lemma count_window:
  fixes T L :: real
  assumes "0 < T" and "2 * EPSILON \<le> L" and "(of_int \<lceil>T / L\<rceil> + 1) * (T + L) \<le> 2 ^ 32"
  shows "f64 (T - EPSILON) \<le> ((\<lambda>h. f64 (h + L)) ^^ nat \<lceil>T / L\<rceil>) 0"
    and "int k \<le> \<lceil>T / L\<rceil> - 2 \<Longrightarrow> ((\<lambda>h. f64 (h + L)) ^^ k) 0 < f64 (T - EPSILON)"
proof -
  define e where "e = (2::real) powi (- 1075)"
  define M where "M = (of_int \<lceil>T / L\<rceil> :: real)"
  define B where "B = 2 * (T + L)"
  define a where "a = B / 2 ^ 53 + e"
  define th where "th = f64 (T - EPSILON)"
  have e0: "0 < e" unfolding e_def by (rule tiny_pos)
  have e1: "e \<le> 1 / 2 ^ 68" unfolding e_def by (rule tiny_le)
  have L16: "1 / 2 ^ 16 \<le> L" using assms(2) EPSILON_bounds(1) by simp
  have L0: "0 < L" using L16 by (smt (verit) zero_less_divide_1_iff zero_less_power)
  have TL: "0 < T + L" using assms(1) L0 by simp
  have q: "0 < T / L" using assms(1) L0 by simp
  then have c1: "1 \<le> \<lceil>T / L\<rceil>" by linarith
  then have M1: "1 \<le> M" unfolding M_def by linarith
  have "T / L \<le> M" unfolding M_def by linarith
  then have TM: "T \<le> M * L" using L0 by (simp add: pos_divide_le_eq)
  have "M - 1 < T / L" unfolding M_def by linarith
  then have MT: "(M - 1) * L < T" using L0 by (simp add: pos_less_divide_eq)
  have hyp: "(M + 1) * (T + L) \<le> 2 ^ 32" using assms(3) unfolding M_def .
  have "M * (T + L) \<le> (M + 1) * (T + L)" using TL by (intro mult_right_mono) simp_all
  with hyp have MTL: "M * (T + L) \<le> 2 ^ 32" by linarith
  have "1 * (T + L) \<le> M * (T + L)" using M1 TL by (intro mult_right_mono) simp_all
  with MTL have T32: "T + L \<le> 2 ^ 32" by simp
  have "M * 1 \<le> M * (2 ^ 16 * (T + L))"
    using M1 L16 assms(1) by (intro mult_left_mono) (simp_all add: field_simps)
  also have "\<dots> = 2 ^ 16 * (M * (T + L))" by simp
  also have "\<dots> \<le> 2 ^ 16 * 2 ^ 32" using MTL by (intro mult_left_mono) simp_all
  finally have M48: "M \<le> 2 ^ 48" by simp
  have "M * e \<le> 2 ^ 48 * e" using M48 e0 by (intro mult_right_mono) simp_all
  also have "\<dots> \<le> 2 ^ 48 * (1 / 2 ^ 68)" using e1 by (intro mult_left_mono) simp_all
  finally have Me: "M * e \<le> 1 / 2 ^ 20" by simp
  have a0: "0 \<le> a" unfolding a_def B_def using TL e0 by simp
  have "M * a = M * (T + L) / 2 ^ 52 + M * e" unfolding a_def B_def by (simp add: algebra_simps)
  also have "\<dots> \<le> 2 ^ 32 / 2 ^ 52 + 1 / 2 ^ 20"
    using MTL Me by (intro add_mono divide_right_mono) simp_all
  finally have Ma: "M * a \<le> 1 / 2 ^ 19" by simp
  have acc: "\<bar>((\<lambda>h. f64 (h + L)) ^^ j) 0 - real j * L\<bar> \<le> 1 / 2 ^ 19" if j: "real j \<le> M" for j
  proof -
    have ja: "real j * a \<le> M * a" using j a0 by (intro mult_right_mono) simp_all
    have jl: "real j * L \<le> M * L" using j L0 by (intro mult_right_mono) simp_all
    have "(1::real) / 2 ^ 19 \<le> 1 / 2 ^ 16" by simp
    with Ma L16 have MaL: "M * a \<le> L" by linarith
    have "M * L < T + L" using MT by (simp add: algebra_simps)
    with ja jl MaL have "real j * L + real j * a \<le> B"
      unfolding B_def using assms(1) by argo
    from heights_error[OF _ a0, of L B j, OF _ _ this] L0
    have "\<bar>((\<lambda>h. f64 (h + L)) ^^ j) 0 - real j * L\<bar> \<le> real j * a"
      unfolding a_def e_def by simp
    with ja Ma show ?thesis by linarith
  qed
  have "\<bar>th - (T - EPSILON)\<bar> \<le> \<bar>T - EPSILON\<bar> / 2 ^ 53 + e"
    unfolding th_def e_def by (rule f64_error_div)
  moreover have "\<bar>T - EPSILON\<bar> / 2 ^ 53 \<le> (2 ^ 32 + 1) / 2 ^ 53"
    using T32 assms(1) L0 EPSILON_bounds EPSILON_pos by (intro divide_right_mono) simp_all
  ultimately have tb: "\<bar>th - (T - EPSILON)\<bar> \<le> 1 / 2 ^ 20" using e1 by simp
  have mm: "real (nat \<lceil>T / L\<rceil>) = M" using c1 unfolding M_def by simp
  from acc[of "nat \<lceil>T / L\<rceil>"] have "\<bar>((\<lambda>h. f64 (h + L)) ^^ nat \<lceil>T / L\<rceil>) 0 - M * L\<bar> \<le> 1 / 2 ^ 19"
    by (simp add: mm)
  from window_upper[OF tb EPSILON_bounds(1) this TM]
  have "th \<le> ((\<lambda>h. f64 (h + L)) ^^ nat \<lceil>T / L\<rceil>) 0"
    by simp
  then show "f64 (T - EPSILON) \<le> ((\<lambda>h. f64 (h + L)) ^^ nat \<lceil>T / L\<rceil>) 0"
    unfolding th_def .
  show "((\<lambda>h. f64 (h + L)) ^^ k) 0 < f64 (T - EPSILON)" if k: "int k \<le> \<lceil>T / L\<rceil> - 2"
  proof -
    from k have "real_of_int (int k) \<le> real_of_int (\<lceil>T / L\<rceil> - 2)" by (rule of_int_le_iff[THEN iffD2])
    then have kM: "real k \<le> M - 2" unfolding M_def by simp
    then have "real k \<le> M" by simp
    from acc[OF this] have h: "\<bar>((\<lambda>h. f64 (h + L)) ^^ k) 0 - real k * L\<bar> \<le> 1 / 2 ^ 19" .
    have "real k * L \<le> (M - 2) * L" using kM L0 by (intro mult_right_mono) simp_all
    also have "\<dots> = (M - 1) * L - L" by (simp add: algebra_simps)
    finally have "real k * L < T - L" using MT by linarith
    from window_lower[OF tb EPSILON_bounds(1) h this assms(2)]
    have "((\<lambda>h. f64 (h + L)) ^^ k) 0 < th" by simp
    then show ?thesis unfolding th_def .
  qed
qed

subsection \<open>Concrete runs\<close>

lemma loaded_tetra:
  "initializeGL demo_gpu demo_printer (tetra h) (demo_start L) = Inr (loaded (tetra h) L)"
proof -
  from initializeGL_nonempty[of "tetra h" _ _ demo_gpu demo_printer "demo_start L"]
  obtain s' where "initializeGL demo_gpu demo_printer (tetra h) (demo_start L) = Inr s'"
    unfolding tetra_def by blast
  then show ?thesis by (simp add: loaded_def)
qed

lemma loaded_tetra_win:
  "0 \<le> h \<Longrightarrow> totalThickness (win (loaded (tetra h) L)) = f32 h"
  "height (win (loaded (tetra h) L)) = 0"
  "currentLayer (win (loaded (tetra h) L)) = 0"
  "layerThickness (win (loaded (tetra h) L)) = f64 L"
  "files (loaded (tetra h) L) = Map.empty"
  "winSize (win (loaded (tetra h) L)) = (640, 480)"
  "sliceSavePath (win (loaded (tetra h) L)) = ''slices''"
  using initializeGL_Inr[OF loaded_tetra, of h L]
  by (simp_all add: tetra_def coords_Cons coords_def vertices_def vz_def demo_start_def start_def Window_init_def)

lemma loaded_tetra_gl:
  "vbo (gl (loaded (tetra h) L)) VertVAO = vertices (tetra h)"
  "vbo (gl (loaded (tetra h) L)) MaskVAO = maskVert demo_printer"
  "bound_fbo (gl (loaded (tetra h) L)) = DefaultFbo"
  using initializeGL_Inr[OF loaded_tetra, of h L]
  by (simp_all add: demo_start_def start_def gl_init_def)

lemma loaded_flat:
  "initializeGL demo_gpu demo_printer flat_mesh (demo_start L) = Inr (loaded flat_mesh L)"
proof -
  from initializeGL_nonempty[of flat_mesh _ _ demo_gpu demo_printer "demo_start L"]
  obtain s' where "initializeGL demo_gpu demo_printer flat_mesh (demo_start L) = Inr s'"
    unfolding flat_mesh_def by blast
  then show ?thesis by (simp add: loaded_def)
qed

lemma loaded_flat_win:
  "totalThickness (win (loaded flat_mesh L)) = 0"
  "height (win (loaded flat_mesh L)) = 0"
  "currentLayer (win (loaded flat_mesh L)) = 0"
  "files (loaded flat_mesh L) = Map.empty"
  using initializeGL_Inr[OF loaded_flat, of L]
  by (simp_all add: flat_mesh_def coords_Cons coords_def vertices_def vz_def demo_start_def start_def
      Window_init_def f32_zero)

lemma loaded_demo:
  "initializeGL demo_gpu demo_printer (tetra 1)
     (start (640, 480) ''part.stl'' (1 / 2) ''slices'' Map.empty) = Inr (loaded (tetra 1) (1 / 2))"
  using loaded_tetra[of 1 "1 / 2"] by (simp add: demo_start_def)


lemma demo_win:
  "totalThickness (win (loaded (tetra 1) (1 / 2))) = 1"
  "layerThickness (win (loaded (tetra 1) (1 / 2))) = 1 / 2"
  by (simp_all add: loaded_tetra_win f32_one f64_half)

lemma demo_threshold: "f64 (1 - EPSILON) = 9007109182748445 / 9007199254740992"
  by (simp add: EPSILON_val fl_eval)

lemma demo_heights:
  "(\<forall>k<2. ((\<lambda>h. f64 (h + layerThickness (win (loaded (tetra 1) (1 / 2))))) ^^ k)
               (height (win (loaded (tetra 1) (1 / 2))))
            < f64 (totalThickness (win (loaded (tetra 1) (1 / 2))) - EPSILON))"
  "f64 (totalThickness (win (loaded (tetra 1) (1 / 2))) - EPSILON)
     \<le> ((\<lambda>h. f64 (h + layerThickness (win (loaded (tetra 1) (1 / 2))))) ^^ 2)
          (height (win (loaded (tetra 1) (1 / 2))))"
  by (simp_all add: All_less_Suc demo_win loaded_tetra_win demo_threshold f64_half numeral_2_eq_2)

lemma demo_run:
  "\<exists>s'. event_loop demo_gpu demo_printer wr (loaded (tetra 1) (1 / 2)) = Some (SystemExit, s')
      \<and> repaint demo_gpu demo_printer wr 2 (loaded (tetra 1) (1 / 2)) = Inr s'
      \<and> paintGL demo_gpu demo_printer wr s' = Inl SystemExit"
  using run_exact[OF demo_heights] .

lemma two_layers_demo:
  "repaint demo_gpu demo_printer (\<lambda>_. True) 2 (loaded (tetra 1) (1 / 2))
     = Inr (layers 2 (loaded (tetra 1) (1 / 2)))"
  using demo_run[of "\<lambda>_. True"] by (auto simp add: layers_def)

lemma first_layer_demo:
  "paintGL demo_gpu demo_printer (\<lambda>_. True) (loaded (tetra 1) (1 / 2))
     = Inr (layers 1 (loaded (tetra 1) (1 / 2)))"
proof -
  have "height (win (loaded (tetra 1) (1 / 2))) < f64 (totalThickness (win (loaded (tetra 1) (1 / 2))) - EPSILON)"
    by (simp add: demo_win loaded_tetra_win demo_threshold)
  from paintGL_layer[OF this, of demo_gpu demo_printer "\<lambda>_. True"]
  obtain t' where "paintGL demo_gpu demo_printer (\<lambda>_. True) (loaded (tetra 1) (1 / 2)) = Inr t'"
    by blast
  then show ?thesis by (simp add: layers_def)
qed


section \<open>The claims\<close>

text \<open>
  C5, as amended. A mesh with no triangles makes \<open>loadMesh\<close>, and with it
  \<open>initializeGL\<close> and the session, fail with numpy's \<open>ValueError\<close> (the minimum of an
  empty array), before any repaint: the session ends in the state it started in. A mesh
  with at least one triangle loads, and its vertex count is three times its number of
  triangles, hence always a multiple of three.
\<close>

theorem empty_mesh_fails:
  "loadMesh pr [] w = Inl ValueError
   \<and> initializeGL gp pr [] s = Inl ValueError
   \<and> session gp pr wr [] s = Some (ValueError, s)
   \<and> (\<exists>w' cs. loadMesh pr (t # ts) w = Inr (w', cs) \<and> numOfVerts w' = int (length (t # ts)) * 3
         \<and> numOfVerts w' mod 3 = 0)"
  using loadMesh_nonempty[of pr t ts w]
  by (auto simp add: loadMesh_empty initializeGL_empty session_def)

text \<open>
  C5 as stated fails: the exception of the empty mesh is \<open>ValueError\<close>, not
  \<open>InvalidMeshError\<close>.
\<close>

theorem empty_mesh_counterexample:
  "map_option fst (session demo_gpu demo_printer (\<lambda>_. True) [] (demo_start (1 / 2))) = Some ValueError
   \<and> map_option fst (session demo_gpu demo_printer (\<lambda>_. True) [] (demo_start (1 / 2))) \<noteq> Some InvalidMeshError"
  by (simp add: session_def initializeGL_empty)

text \<open>
  C6, as amended. When the total thickness is 0 or less, the session ends at its first
  repaint through \<open>sys.exit()\<close>, the exit of a finished run, in the state
  \<open>initializeGL\<close> left: no layer has been produced and no file written.
\<close>

theorem degenerate_volume_exits:
  assumes "initializeGL gp pr ourMesh (start sz fname thickness savePath d) = Inr s1"
    and "totalThickness (win s1) \<le> 0"
  shows "session gp pr wr ourMesh (start sz fname thickness savePath d) = Some (SystemExit, s1)
       \<and> paintGL gp pr wr s1 = Inl SystemExit
       \<and> currentLayer (win s1) = 0
       \<and> files s1 = d"
proof -
  from initializeGL_Inr[OF assms(1)]
  have f: "height (win s1) = 0" "currentLayer (win s1) = 0" "files s1 = d"
    by (simp_all add: start_def Window_init_def)
  from assms(2) EPSILON_pos have "totalThickness (win s1) - EPSILON \<le> 0" by simp
  then have "f64 (totalThickness (win s1) - EPSILON) \<le> 0" by (rule f64_nonpos)
  with f(1) have "f64 (totalThickness (win s1) - EPSILON) \<le> height (win s1)"
    by simp
  from paintGL_exit[OF this] have x: "paintGL gp pr wr s1 = Inl SystemExit" .
  have "event_loop gp pr wr s1 = Some (SystemExit, s1)"
    by (subst event_loop.simps) (simp add: x)
  then show ?thesis
    using x f by (simp add: session_def assms(1))
qed

theorem degenerate_volume_exits_witness:
  "initializeGL demo_gpu demo_printer flat_mesh
     (start (640, 480) ''part.stl'' (1 / 2) ''slices'' Map.empty) = Inr (loaded flat_mesh (1 / 2))
   \<and> totalThickness (win (loaded flat_mesh (1 / 2))) \<le> 0
   \<and> session demo_gpu demo_printer (\<lambda>_. True) flat_mesh
        (start (640, 480) ''part.stl'' (1 / 2) ''slices'' Map.empty)
       = Some (SystemExit, loaded flat_mesh (1 / 2))
   \<and> currentLayer (win (loaded flat_mesh (1 / 2))) = 0
   \<and> files (loaded flat_mesh (1 / 2)) = Map.empty"
proof -
  have i: "initializeGL demo_gpu demo_printer flat_mesh
     (start (640, 480) ''part.stl'' (1 / 2) ''slices'' Map.empty) = Inr (loaded flat_mesh (1 / 2))"
    using loaded_flat[of "1 / 2"] by (simp add: demo_start_def)
  have t: "totalThickness (win (loaded flat_mesh (1 / 2))) \<le> 0"
    by (simp add: loaded_flat_win)
  from degenerate_volume_exits[OF i t, of "\<lambda>_. True"] i t show ?thesis
    by blast
qed

text \<open>
  C6 as stated fails: a flat triangle has total thickness 0, and its session ends with
  \<open>SystemExit\<close>, not with \<open>DegenerateVolumeError\<close>.
\<close>

theorem degenerate_volume_counterexample:
  "totalThickness (win (loaded flat_mesh (1 / 2))) \<le> 0
   \<and> map_option fst (session demo_gpu demo_printer (\<lambda>_. True) flat_mesh (demo_start (1 / 2)))
       = Some SystemExit
   \<and> map_option fst (session demo_gpu demo_printer (\<lambda>_. True) flat_mesh (demo_start (1 / 2)))
       \<noteq> Some DegenerateVolumeError"
proof -
  have "0 - EPSILON \<le> 0" using EPSILON_pos by simp
  then have "f64 (0 - EPSILON) \<le> 0" by (rule f64_nonpos)
  then have "f64 (totalThickness (win (loaded flat_mesh (1 / 2))) - EPSILON)
               \<le> height (win (loaded flat_mesh (1 / 2)))"
    by (simp add: loaded_flat_win)
  from paintGL_exit[OF this]
  have "event_loop demo_gpu demo_printer (\<lambda>_. True) (loaded flat_mesh (1 / 2))
          = Some (SystemExit, loaded flat_mesh (1 / 2))"
    by (subst event_loop.simps) simp
  then show ?thesis
    by (simp add: session_def loaded_flat loaded_flat_win)
qed




text \<open>
  C9. Running \<open>renderSlice\<close> a second time, on the state the first run left and with
  the window unchanged, hands the same raster to \<open>QImage.save\<close>: every piece of
  context state the raster depends on is set by \<open>renderSlice\<close> itself before it is read,
  and the vertex buffers are not touched. When the export succeeds the file written by
  the second run is the file written by the first.
\<close>

theorem slice_idempotent:
  "sliceRaster gp pr (renderSlice gp pr wr s) = sliceRaster gp pr s
   \<and> files (renderSlice gp pr wr s)
       = (if wr (slicePath (win s)) then (files s)(slicePath (win s) \<mapsto> sliceRaster gp pr s) else files s)
   \<and> files (renderSlice gp pr (\<lambda>_. True) (renderSlice gp pr wr s)) (slicePath (win s))
       = files (renderSlice gp pr (\<lambda>_. True) s) (slicePath (win s))"
proof -
  have "color_buf (gl_run gp (renderSlice_calls pr (win s)) (gl (renderSlice gp pr wr s))) SliceFbo
          = color_buf (gl_run gp (renderSlice_calls pr (win s)) (gl s)) SliceFbo"
    by (rule ext) (simp add: slice_pixels vbo_renderSlice)
  from toImage_cong[OF this]
  have r: "sliceRaster gp pr (renderSlice gp pr wr s) = sliceRaster gp pr s"
    by (simp add: sliceRaster_def win_renderSlice)
  show ?thesis
    by (simp add: r files_renderSlice win_renderSlice)
qed

text \<open>
  C1, as amended. In \<open>draw\<close> and in \<open>renderSlice\<close> alike, hence in every layer, the
  first pass over the solid culls front faces and increments the stencil value, so that
  back faces increment; the second pass culls back faces and decrements, so that front
  faces decrement; the mask quad follows with culling off and stencil writes kept. The
  stencil value of a pixel after the sequence is one clamped increment for each
  back-facing fragment followed by one clamped decrement for each front-facing one.
\<close>

theorem stencil_pass_order:
  "draw_passes gp g (snd (draw w)) =
     [(True, GL_FRONT, GL_INCR, numOfVerts w),
      (True, GL_BACK, GL_DECR, numOfVerts w),
      (False, GL_BACK, GL_KEEP, 6)]
   \<and> draw_passes gp g (renderSlice_calls pr w) =
     [(True, GL_FRONT, GL_INCR, numOfVerts w),
      (True, GL_BACK, GL_DECR, numOfVerts w),
      (False, GL_BACK, GL_KEEP, 6)]
   \<and> stencil_buf (gl_run gp (snd (draw w)) g) (bound_fbo g) p =
       (stencil_apply GL_DECR ^^
          fragments gp (take (nat (numOfVerts w)) (vbo g VertVAO)) (proj w) (model (fst (draw w)))
            (0, 0, fst (winSize w), snd (winSize w)) GL_FRONT p)
         ((stencil_apply GL_INCR ^^
             fragments gp (take (nat (numOfVerts w)) (vbo g VertVAO)) (proj w) (model (fst (draw w)))
               (0, 0, fst (winSize w), snd (winSize w)) GL_BACK p) 0)
   \<and> stencil_buf (gl_run gp (renderSlice_calls pr w) g) SliceFbo p =
       (stencil_apply GL_DECR ^^
          fragments gp (take (nat (numOfVerts w)) (vbo g VertVAO)) (proj w) (model w)
            (0, 0, printer_width pr, printer_height pr) GL_FRONT p)
         ((stencil_apply GL_INCR ^^
             fragments gp (take (nat (numOfVerts w)) (vbo g VertVAO)) (proj w) (model w)
               (0, 0, printer_width pr, printer_height pr) GL_BACK p) 0)
   \<and> (paintGL gp pr wr s = Inr s' \<longrightarrow>
        stencil_buf (gl s') SliceFbo p =
          (stencil_apply GL_DECR ^^
             fragments gp (take (nat (numOfVerts (win s'))) (vbo (gl s) VertVAO)) (proj (win s'))
               (model (win s')) (0, 0, printer_width pr, printer_height pr) GL_FRONT p)
            ((stencil_apply GL_INCR ^^
                fragments gp (take (nat (numOfVerts (win s'))) (vbo (gl s) VertVAO)) (proj (win s'))
                  (model (win s')) (0, 0, printer_width pr, printer_height pr) GL_BACK p) 0))"
proof -
  have a: "draw_passes gp g (snd (draw w)) =
     [(True, GL_FRONT, GL_INCR, numOfVerts w),
      (True, GL_BACK, GL_DECR, numOfVerts w),
      (False, GL_BACK, GL_KEEP, 6)]"
    by (simp add: draw_shape draw_passes_append stencil_sequence_passes)
  have b: "draw_passes gp g (renderSlice_calls pr w) =
     [(True, GL_FRONT, GL_INCR, numOfVerts w),
      (True, GL_BACK, GL_DECR, numOfVerts w),
      (False, GL_BACK, GL_KEEP, 6)]"
    by (simp add: renderSlice_calls_shape stencil_sequence_passes)
  show ?thesis
    using a b by (simp add: draw_pixels slice_pixels paintGL_Inr_stencil winding_def)
qed

theorem stencil_pass_order_witness:
  "paintGL demo_gpu demo_printer (\<lambda>_. True) (loaded (tetra 1) (1 / 2))
       = Inr (layers 1 (loaded (tetra 1) (1 / 2)))
   \<and> stencil_buf (gl (layers 1 (loaded (tetra 1) (1 / 2)))) SliceFbo (0, 0) = 1"
proof -
  have v: "take (nat (numOfVerts (win (layers 1 (loaded (tetra 1) (1 / 2))))))
             (vbo (gl (loaded (tetra 1) (1 / 2))) VertVAO) \<noteq> []"
    using paintGL_Inr_win[OF first_layer_demo] initializeGL_Inr[OF loaded_tetra, of 1 "1 / 2"]
    by (simp add: loaded_tetra_gl) (simp add: tetra_def vertices_def)
  from stencil_pass_order[where gp = demo_gpu and pr = demo_printer and wr = "\<lambda>_. True"
      and s = "loaded (tetra 1) (1 / 2)" and s' = "layers 1 (loaded (tetra 1) (1 / 2))"
      and p = "(0, 0)"] first_layer_demo v
  show ?thesis
    by (simp add: demo_gpu_def stencil_apply_def)
qed

text \<open>
  C1 as stated fails: the incrementing pass culls front faces, not back faces, in both
  methods. Where the rasterizer finds a single front-facing fragment and no back-facing
  one, the stencil value after the sequence is 0: the front face has not incremented it.
\<close>

theorem stencil_pass_order_counterexample:
  "map (fst \<circ> snd) (draw_passes demo_gpu (gl (loaded (tetra 1) (1 / 2)))
        (renderSlice_calls demo_printer (win (loaded (tetra 1) (1 / 2)))))
     = [GL_FRONT, GL_BACK, GL_BACK]
   \<and> map (fst \<circ> snd) (draw_passes demo_gpu (gl (loaded (tetra 1) (1 / 2)))
        (snd (draw (win (loaded (tetra 1) (1 / 2))))))
     = [GL_FRONT, GL_BACK, GL_BACK]
   \<and> fragments front_gpu (take (nat (numOfVerts (win (loaded (tetra 1) (1 / 2)))))
         (vbo (gl (loaded (tetra 1) (1 / 2))) VertVAO))
         (proj (win (loaded (tetra 1) (1 / 2)))) (model (win (loaded (tetra 1) (1 / 2))))
         (0, 0, printer_width demo_printer, printer_height demo_printer) GL_FRONT (0, 0) = 1
   \<and> stencil_buf (gl_run front_gpu (renderSlice_calls demo_printer (win (loaded (tetra 1) (1 / 2))))
         (gl (loaded (tetra 1) (1 / 2)))) SliceFbo (0, 0) = 0"
proof -
  have a: "map (fst \<circ> snd) (draw_passes demo_gpu (gl (loaded (tetra 1) (1 / 2)))
        (renderSlice_calls demo_printer (win (loaded (tetra 1) (1 / 2)))))
     = [GL_FRONT, GL_BACK, GL_BACK]"
    by (simp add: renderSlice_calls_shape stencil_sequence_passes)
  have b: "map (fst \<circ> snd) (draw_passes demo_gpu (gl (loaded (tetra 1) (1 / 2)))
        (snd (draw (win (loaded (tetra 1) (1 / 2))))))
     = [GL_FRONT, GL_BACK, GL_BACK]"
    by (simp add: draw_shape draw_passes_append stencil_sequence_passes)
  have c: "stencil_buf (gl_run front_gpu (renderSlice_calls demo_printer (win (loaded (tetra 1) (1 / 2))))
         (gl (loaded (tetra 1) (1 / 2)))) SliceFbo (0, 0) = 0"
    by (simp add: slice_pixels winding_def front_gpu_def stencil_apply_def)
  show ?thesis
    using a b c by (simp add: front_gpu_def)
qed

end
